theory Spec2Isabelle
  imports Complex_Main "HOL-Library.Sublist" "HOL-Library.Char_ord" "HOL-Library.List_Lexorder"
begin

section \<open>Python values and exceptions\<close>

text \<open>
  The program is dynamically typed Python. The values that travel through the
  \<open>WorkflowManager\<close> (settings, results of analyses) are modelled by one datatype of
  Python values; a \<open>pandas.Series\<close> of frequencies is the list of its (label, count)
  rows in order, a \<open>dict\<close> with string keys is the list of its items in iteration order.
\<close>

datatype pyval =
    PNone
  | PBool bool
  | PInt int
  | PFloat rat
  | PStr string
  | PList "pyval list"
  | PDict "(string \<times> pyval) list"
  | PSeries "(string \<times> rat) list"

text \<open>
  Exceptions are values, each carrying its message. The messages of exceptions raised by
  the program's own \<open>raise\<close> statements are the program's strings; the messages of
  exceptions raised by the interpreter (a \<open>TypeError\<close> of a call, a \<open>KeyError\<close> of a
  lookup) only describe the cause.
\<close>

datatype error =
    ValueError string
  | IndexError string
  | AttributeError string
  | RuntimeError string
  | KeyError string
  | TypeError string
  | NotImplementedError string
  | RuntimeWarning string

text \<open>\<open>str(n)\<close> and \<open>unicode(n)\<close> of an integer: its decimal digits.\<close>

definition digit_char :: "nat \<Rightarrow> char" where
  "digit_char d = char_of (48 + d)"

fun str_nat :: "nat \<Rightarrow> string" where
  "str_nat n = (if n < 10 then [digit_char n] else str_nat (n div 10) @ [digit_char (n mod 10)])"

declare str_nat.simps [simp del]

definition str_int :: "int \<Rightarrow> string" where
  "str_int i = (if i < 0 then CHR ''-'' # str_nat (nat (- i)) else str_nat (nat i))"

section \<open>The WorkflowManager (workflow.py)\<close>

subsection \<open>State and construction\<close>

text \<open>
  The analyzer classes that name a stage of an analysis. They are the classes of the
  table of \<open>IndexedPiece.__init__\<close>; \<open>OtherClass\<close> stands for any class that the table
  does not hold.
\<close>

datatype analyzer =
    AnnotationIndexer
  | ActiveVoicesIndexer
  | CadenceIndexer
  | ContourIndexer
  | DissonanceIndexer
  | FermataIndexer
  | HorizontalIntervalIndexer
  | IntervalIndexer
  | DurationIndexer
  | MeasureIndexer
  | NoteBeatStrengthIndexer
  | NGramIndexer
  | MultiStopIndexer
  | NoteRestIndexer
  | FilterByOffsetIndexer
  | OverBassIndexer
  | FilterByRepeatIndexer
  | Windexer
  | ColumnAggregator
  | RBarChart
  | FrequencyExperimenter
  | AnnotateTheNoteExperimenter
  | LilyPondExperimenter
  | PartNotesExperimenter
  | OtherClass string

text \<open>
  A \<open>WorkflowManager\<close> holds \<open>self._data\<close> (the pieces), \<open>self._result\<close> and
  \<open>self._settings\<close> (one dict per piece). The type \<open>'p\<close> is the state of one piece
  object; the pieces of the list are distinct objects.
\<close>

record 'p WorkflowManager =
  wm_data :: "'p list"
  wm_result :: pyval
  wm_settings :: "(string \<rightharpoonup> pyval) list"

text \<open>
  What \<open>workflow.py\<close> calls but does not define: the constructor and the methods
  \<open>get_data\<close> and \<open>metadata\<close> of the piece objects (Python dispatches them on the object
  at run time; \<open>workflow.py\<close> passes \<open>get_data\<close> a list of analyzer classes and then its
  further positional arguments), \<open>interval.key_to_tuple\<close>, and \<open>get_data\<close> of
  \<open>AggregatedPieces\<close>. The methods of \<open>WorkflowManager\<close> are written over a record of
  these; the record for the pieces of \<open>indexed_piece.py\<close> is \<open>IndexedPiece_collaborators\<close>
  below. A call on a piece returns the piece's new state with its result or exception.
\<close>

record 'p collaborators =
  piece_new :: "string \<Rightarrow> 'p"
  piece_get_data :: "'p \<Rightarrow> analyzer list \<Rightarrow> pyval list \<Rightarrow> (error + pyval) \<times> 'p"
  piece_metadata :: "'p \<Rightarrow> string \<Rightarrow> error + pyval"
  key_to_tuple :: "string \<Rightarrow> error + int \<times> int"
  aggregated_get_data :: "'p list \<Rightarrow> analyzer list \<Rightarrow> pyval list \<Rightarrow> error + pyval"

text \<open>An element of the list given to \<open>__init__\<close>: a pathname, a piece, or anything else.\<close>

datatype 'p init_val = Pathname string | Piece 'p | Ignored pyval

fun init_post :: "'p collaborators \<Rightarrow> 'p init_val list \<Rightarrow> 'p list" where
  "init_post C [] = []"
| "init_post C (Pathname s # vals) = piece_new C s # init_post C vals"
| "init_post C (Piece p # vals) = p # init_post C vals"
| "init_post C (Ignored v # vals) = init_post C vals"

definition init_piece_sett :: "string \<rightharpoonup> pyval" where
  "init_piece_sett =
     [''offset interval'' \<mapsto> PNone, ''voice combinations'' \<mapsto> PNone,
      ''filter repeats'' \<mapsto> PBool False, ''interval quality'' \<mapsto> PBool False,
      ''simple intervals'' \<mapsto> PBool False]"

definition init :: "'p collaborators \<Rightarrow> 'p init_val list \<Rightarrow> 'p WorkflowManager" where
  "init C vals =
     (let post = init_post C vals
      in \<lparr>wm_data = post, wm_result = PNone,
          wm_settings = replicate (length post) init_piece_sett\<rparr>)"

definition len :: "'p WorkflowManager \<Rightarrow> nat" where
  "len wm = length (wm_data wm)"

subsection \<open>settings()\<close>

text \<open>
  \<open>settings(index, field, value)\<close> with an integer \<open>index\<close>: the three \<open>elif\<close> branches
  and the \<open>else\<close> of the method. The result is the returned value or the exception, with
  the manager as the call leaves it.
\<close>

definition settings_index ::
  "'p WorkflowManager \<Rightarrow> int \<Rightarrow> string \<Rightarrow> pyval \<Rightarrow> (error + pyval) \<times> 'p WorkflowManager" where
  "settings_index wm index field val =
     (if \<not> (0 \<le> index \<and> index < int (length (wm_settings wm)))
      then (Inl (IndexError (''Invalid inex for this WorkflowManager ('' @ str_int index @ '')'')), wm)
      else if field \<notin> dom (wm_settings wm ! nat index)
      then (Inl (AttributeError (''Invalid setting: '' @ field)), wm)
      else if val = PNone
      then (Inr (the ((wm_settings wm ! nat index) field)), wm)
      else (Inr PNone,
            wm\<lparr>wm_settings := (wm_settings wm)[nat index := (wm_settings wm ! nat index)(field \<mapsto> val)]\<rparr>))"

text \<open>
  The loop \<open>for i in xrange(len(self._settings)): self.settings(i, field, value)\<close>, over
  the indices still to visit. An exception of a call ends the loop and leaves the
  pieces already visited changed.
\<close>

fun settings_loop ::
  "'p WorkflowManager \<Rightarrow> nat list \<Rightarrow> string \<Rightarrow> pyval \<Rightarrow> (error + pyval) \<times> 'p WorkflowManager" where
  "settings_loop wm [] field val = (Inr PNone, wm)"
| "settings_loop wm (i # is) field val =
     (case settings_index wm (int i) field val of
        (Inl e, wm') \<Rightarrow> (Inl e, wm')
      | (Inr _, wm') \<Rightarrow> settings_loop wm' is field val)"

definition settings ::
  "'p WorkflowManager \<Rightarrow> int option \<Rightarrow> string \<Rightarrow> pyval \<Rightarrow> (error + pyval) \<times> 'p WorkflowManager" where
  "settings wm index field val =
     (case index of
        None \<Rightarrow>
          (if val = PNone
           then (Inl (ValueError ''If \"index\" is None, \"value\" must not be None.''), wm)
           else settings_loop wm [0 ..< length (wm_settings wm)] field val)
      | Some i \<Rightarrow> settings_index wm i field val)"

subsection \<open>The Python operations the workflows use\<close>

text \<open>
  The operators of Python on the values above, with the exception the interpreter raises
  on an operand of the wrong type: \<open>key in obj\<close>, \<open>obj[key]\<close> with a string and with an
  integer key (a negative index counts from the end), \<open>obj.iterkeys()\<close>,
  \<open>obj.itervalues()\<close>, \<open>len(obj)\<close> and \<open>d[key] = v\<close> on the items of a dict.
\<close>

fun py_contains :: "pyval \<Rightarrow> string \<Rightarrow> error + bool" where
  "py_contains (PDict kvs) k = Inr (k \<in> set (map fst kvs))"
| "py_contains (PList xs) k = Inr (PStr k \<in> set xs)"
| "py_contains (PStr s) k = Inr (sublist k s)"
| "py_contains (PSeries rows) k = Inr (k \<in> set (map fst rows))"
| "py_contains _ k = Inl (TypeError ''argument is not iterable'')"

fun py_getitem :: "pyval \<Rightarrow> string \<Rightarrow> error + pyval" where
  "py_getitem (PDict kvs) k = (case map_of kvs k of None \<Rightarrow> Inl (KeyError k) | Some v \<Rightarrow> Inr v)"
| "py_getitem (PSeries rows) k =
     (case map_of rows k of None \<Rightarrow> Inl (KeyError k) | Some c \<Rightarrow> Inr (PFloat c))"
| "py_getitem (PList xs) k = Inl (TypeError ''list indices must be integers'')"
| "py_getitem (PStr s) k = Inl (TypeError ''string indices must be integers'')"
| "py_getitem _ k = Inl (TypeError ''object is not subscriptable'')"

definition list_index :: "'a list \<Rightarrow> int \<Rightarrow> 'a option" where
  "list_index xs i =
     (let n = int (length xs); j = (if i < 0 then n + i else i)
      in if 0 \<le> j \<and> j < n then Some (xs ! nat j) else None)"

fun py_index :: "pyval \<Rightarrow> int \<Rightarrow> error + pyval" where
  "py_index (PList xs) i =
     (case list_index xs i of None \<Rightarrow> Inl (IndexError ''list index out of range'') | Some v \<Rightarrow> Inr v)"
| "py_index (PStr s) i =
     (case list_index s i of None \<Rightarrow> Inl (IndexError ''string index out of range'')
      | Some c \<Rightarrow> Inr (PStr [c]))"
| "py_index (PSeries rows) i =
     (case list_index rows i of None \<Rightarrow> Inl (IndexError ''index out of bounds'')
      | Some r \<Rightarrow> Inr (PFloat (snd r)))"
| "py_index (PDict kvs) i = Inl (KeyError (str_int i))"
| "py_index _ i = Inl (TypeError ''object is not subscriptable'')"

fun iterkeys :: "pyval \<Rightarrow> error + string list" where
  "iterkeys (PDict kvs) = Inr (map fst kvs)"
| "iterkeys _ = Inl (AttributeError ''object has no attribute iterkeys'')"

fun itervalues :: "pyval \<Rightarrow> error + pyval list" where
  "itervalues (PDict kvs) = Inr (map snd kvs)"
| "itervalues _ = Inl (AttributeError ''object has no attribute itervalues'')"

fun py_len :: "pyval \<Rightarrow> error + nat" where
  "py_len (PList xs) = Inr (length xs)"
| "py_len (PStr s) = Inr (length s)"
| "py_len (PDict kvs) = Inr (length kvs)"
| "py_len (PSeries rows) = Inr (length rows)"
| "py_len _ = Inl (TypeError ''object has no len()'')"

fun dict_set :: "(string \<times> pyval) list \<Rightarrow> string \<Rightarrow> pyval \<Rightarrow> (string \<times> pyval) list" where
  "dict_set [] k v = [(k, v)]"
| "dict_set ((k', v') # kvs) k v = (if k' = k then (k, v) # kvs else (k', v') # dict_set kvs k v)"

text \<open>
  \<open>post.sort(ascending=False)\<close> on a \<open>pandas.Series\<close> sorts it in place by its values:
  pandas sorts ascending and reverses the order. Only a Series has such a method; a list
  rejects the keyword, every other value has no \<open>sort\<close>. (The order pandas gives to rows
  of equal value is not fixed; here it is the reverse of their order before.)
\<close>

fun sort_descending :: "pyval \<Rightarrow> error + pyval" where
  "sort_descending (PSeries rows) = Inr (PSeries (rev (sort_key snd rows)))"
| "sort_descending (PList xs) = Inl (TypeError ''ascending is an invalid keyword argument'')"
| "sort_descending _ = Inl (AttributeError ''object has no attribute sort'')"

text \<open>Sequencing of computations that may raise.\<close>

definition bindE :: "error + 'a \<Rightarrow> ('a \<Rightarrow> error + 'b) \<Rightarrow> error + 'b" where
  "bindE m f = (case m of Inl e \<Rightarrow> Inl e | Inr x \<Rightarrow> f x)"

subsection \<open>load()\<close>

fun load_pieces :: "'p collaborators \<Rightarrow> 'p list \<Rightarrow> (error + pyval) \<times> 'p list" where
  "load_pieces C [] = (Inr PNone, [])"
| "load_pieces C (piece # rest) =
     (case piece_get_data C piece [NoteRestIndexer] [] of
        (Inl e, piece') \<Rightarrow> (Inl e, piece' # rest)
      | (Inr _, piece') \<Rightarrow>
          (case load_pieces C rest of (r, rest') \<Rightarrow> (r, piece' # rest')))"

definition load ::
  "'p collaborators \<Rightarrow> 'p WorkflowManager \<Rightarrow> string \<Rightarrow> (error + pyval) \<times> 'p WorkflowManager" where
  "load C wm instruction =
     (if instruction = ''pieces''
      then (case load_pieces C (wm_data wm) of (r, ps) \<Rightarrow> (r, wm\<lparr>wm_data := ps\<rparr>))
      else if instruction = ''hdf5'' \<or> instruction = ''stata'' \<or> instruction = ''pickle''
      then (Inl (NotImplementedError (''The '' @ instruction @ '' instruction does't work yet!'')), wm)
      else (Inr PNone, wm))"

subsection \<open>The three workflows\<close>

text \<open>
  The tail shared by the three workflows: \<open>AggregatedPieces(self._data)\<close> runs the
  \<open>ColumnAggregator\<close> on the collected frequencies (arguments \<open>None, {}, freqs\<close>), and
  the result is sorted in place.
\<close>

definition aggregate_and_sort :: "'p collaborators \<Rightarrow> 'p list \<Rightarrow> pyval list \<Rightarrow> error + pyval" where
  "aggregate_and_sort C pieces freqs =
     bindE (aggregated_get_data C pieces [ColumnAggregator] [PNone, PDict [], PList freqs])
       sort_descending"

text \<open>\<open>_intervs\<close>: the loop over the pieces, then the aggregation.\<close>

fun intervs_loop :: "'p collaborators \<Rightarrow> pyval \<Rightarrow> 'p list \<Rightarrow> (error + pyval list) \<times> 'p list" where
  "intervs_loop C setts [] = (Inr [], [])"
| "intervs_loop C setts (piece # rest) =
     (case piece_get_data C piece [NoteRestIndexer, IntervalIndexer] [setts] of
        (Inl e, piece1) \<Rightarrow> (Inl e, piece1 # rest)
      | (Inr vert_ints, piece1) \<Rightarrow>
          (case itervalues vert_ints of
             Inl e \<Rightarrow> (Inl e, piece1 # rest)
           | Inr vs \<Rightarrow>
               (case piece_get_data C piece1 [FrequencyExperimenter, ColumnAggregator]
                       [PDict [], PList vs] of
                  (Inl e, piece2) \<Rightarrow> (Inl e, piece2 # rest)
                | (Inr freq, piece2) \<Rightarrow>
                    (case intervs_loop C setts rest of
                       (Inl e, rest') \<Rightarrow> (Inl e, piece2 # rest')
                     | (Inr int_freqs, rest') \<Rightarrow> (Inr (freq # int_freqs), piece2 # rest')))))"

definition intervs :: "'p collaborators \<Rightarrow> 'p list \<Rightarrow> pyval \<Rightarrow> (error + pyval) \<times> 'p list" where
  "intervs C pieces setts =
     (case intervs_loop C setts pieces of
        (Inl e, pieces') \<Rightarrow> (Inl e, pieces')
      | (Inr int_freqs, pieces') \<Rightarrow> (aggregate_and_sort C pieces' int_freqs, pieces'))"

text \<open>
  The settings of the \<open>NGramIndexer\<close>, assembled the same way by both n-gram workflows
  from the dict \<open>setts\<close> they start from and the shared \<open>settings\<close>.
\<close>

definition assemble_setts :: "(string \<times> pyval) list \<Rightarrow> pyval \<Rightarrow> error + pyval" where
  "assemble_setts setts shared =
     bindE (py_contains shared ''mark singles'') (\<lambda>has_ms.
     bindE (if has_ms then bindE (py_getitem shared ''mark singles'')
                               (\<lambda>v. Inr (dict_set setts ''mark singles'' v))
            else Inr setts) (\<lambda>setts1.
     bindE (py_contains shared ''continuer'') (\<lambda>has_c.
     bindE (if has_c then bindE (py_getitem shared ''continuer'')
                              (\<lambda>v. Inr (dict_set setts1 ''continuer'' v))
            else Inr setts1) (\<lambda>setts2.
     bindE (py_getitem shared ''n'') (\<lambda>n.
     Inr (PDict (dict_set setts2 ''n'' n)))))))"

text \<open>\<open>_two_part_modules\<close>: for each piece, the loop over the voice pairs of \<open>vert_ints\<close>.\<close>

definition two_part_parts :: "'p collaborators \<Rightarrow> pyval \<Rightarrow> pyval \<Rightarrow> string \<Rightarrow> error + pyval" where
  "two_part_parts C vert_ints horiz_ints combo =
     bindE (key_to_tuple C combo) (\<lambda>tup.
     bindE (py_getitem vert_ints combo) (\<lambda>v.
     bindE (py_index horiz_ints (snd tup)) (\<lambda>h.
     Inr (PList [v, h]))))"

fun two_part_combos ::
  "'p collaborators \<Rightarrow> pyval \<Rightarrow> pyval \<Rightarrow> pyval \<Rightarrow> 'p \<Rightarrow> string list \<Rightarrow> (error + pyval list) \<times> 'p" where
  "two_part_combos C shared vert_ints horiz_ints piece [] = (Inr [], piece)"
| "two_part_combos C shared vert_ints horiz_ints piece (combo # combos) =
     (case bindE (two_part_parts C vert_ints horiz_ints combo) (\<lambda>parts.
           bindE (assemble_setts [(''vertical'', PList [PInt 0]), (''horizontal'', PList [PInt 1])] shared)
             (\<lambda>setts. Inr (setts, parts))) of
        Inl e \<Rightarrow> (Inl e, piece)
      | Inr (setts, parts) \<Rightarrow>
          (case piece_get_data C piece [NGramIndexer, FrequencyExperimenter] [setts, parts] of
             (Inl e, piece1) \<Rightarrow> (Inl e, piece1)
           | (Inr freq, piece1) \<Rightarrow>
               (case two_part_combos C shared vert_ints horiz_ints piece1 combos of
                  (Inl e, piece2) \<Rightarrow> (Inl e, piece2)
                | (Inr freqs, piece2) \<Rightarrow> (Inr (freq # freqs), piece2))))"

fun two_part_loop :: "'p collaborators \<Rightarrow> pyval \<Rightarrow> 'p list \<Rightarrow> (error + pyval list) \<times> 'p list" where
  "two_part_loop C shared [] = (Inr [], [])"
| "two_part_loop C shared (piece # rest) =
     (case piece_get_data C piece [NoteRestIndexer, IntervalIndexer] [shared] of
        (Inl e, piece1) \<Rightarrow> (Inl e, piece1 # rest)
      | (Inr vert_ints, piece1) \<Rightarrow>
          (case piece_get_data C piece1 [NoteRestIndexer, HorizontalIntervalIndexer] [shared] of
             (Inl e, piece2) \<Rightarrow> (Inl e, piece2 # rest)
           | (Inr horiz_ints, piece2) \<Rightarrow>
               (case iterkeys vert_ints of
                  Inl e \<Rightarrow> (Inl e, piece2 # rest)
                | Inr combos \<Rightarrow>
                    (case two_part_combos C shared vert_ints horiz_ints piece2 combos of
                       (Inl e, piece3) \<Rightarrow> (Inl e, piece3 # rest)
                     | (Inr freqs, piece3) \<Rightarrow>
                         (case two_part_loop C shared rest of
                            (Inl e, rest') \<Rightarrow> (Inl e, piece3 # rest')
                          | (Inr ngram_freqs, rest') \<Rightarrow>
                              (Inr (freqs @ ngram_freqs), piece3 # rest'))))))"

definition two_part_modules :: "'p collaborators \<Rightarrow> 'p list \<Rightarrow> pyval \<Rightarrow> (error + pyval) \<times> 'p list" where
  "two_part_modules C pieces shared =
     (case two_part_loop C shared pieces of
        (Inl e, pieces') \<Rightarrow> (Inl e, pieces')
      | (Inr ngram_freqs, pieces') \<Rightarrow> (aggregate_and_sort C pieces' ngram_freqs, pieces'))"

text \<open>
  \<open>_all_part_modules\<close>: every voice against the lowest. \<open>lowest_part\<close> is \<open>-1\<close> for a
  piece with no parts, and \<open>xrange\<close> of it is then empty.
\<close>

fun getitems :: "pyval \<Rightarrow> string list \<Rightarrow> error + pyval list" where
  "getitems obj [] = Inr []"
| "getitems obj (k # ks) =
     bindE (py_getitem obj k) (\<lambda>v. bindE (getitems obj ks) (\<lambda>vs. Inr (v # vs)))"

definition all_part_args :: "pyval \<Rightarrow> pyval \<Rightarrow> pyval \<Rightarrow> pyval \<Rightarrow> error + pyval \<times> pyval" where
  "all_part_args shared vert_ints horiz_ints part_names =
     bindE (py_len part_names) (\<lambda>n.
       let lowest_part = int n - 1;
           vert_combos = map (\<lambda>x. str_int (int x) @ '','' @ str_int lowest_part)
                             [0 ..< nat lowest_part]
       in bindE (getitems vert_ints vert_combos) (\<lambda>vs.
          bindE (py_index horiz_ints (- 1)) (\<lambda>h.
            let parts = vs @ [h]
            in bindE (assemble_setts
                        [(''vertical'', PList (map (\<lambda>i. PInt (int i)) [0 ..< length parts - 1])),
                         (''horizontal'', PList [PInt (int (length parts) - 1)])] shared)
                 (\<lambda>setts. Inr (setts, PList parts)))))"

fun all_part_loop :: "'p collaborators \<Rightarrow> pyval \<Rightarrow> 'p list \<Rightarrow> (error + pyval list) \<times> 'p list" where
  "all_part_loop C shared [] = (Inr [], [])"
| "all_part_loop C shared (piece # rest) =
     (case piece_get_data C piece [NoteRestIndexer, IntervalIndexer] [shared] of
        (Inl e, piece1) \<Rightarrow> (Inl e, piece1 # rest)
      | (Inr vert_ints, piece1) \<Rightarrow>
          (case piece_get_data C piece1 [NoteRestIndexer, HorizontalIntervalIndexer] [shared] of
             (Inl e, piece2) \<Rightarrow> (Inl e, piece2 # rest)
           | (Inr horiz_ints, piece2) \<Rightarrow>
               (case bindE (piece_metadata C piece2 ''parts'')
                       (all_part_args shared vert_ints horiz_ints) of
                  Inl e \<Rightarrow> (Inl e, piece2 # rest)
                | Inr (setts, parts) \<Rightarrow>
                    (case piece_get_data C piece2 [NGramIndexer, FrequencyExperimenter]
                            [setts, parts] of
                       (Inl e, piece3) \<Rightarrow> (Inl e, piece3 # rest)
                     | (Inr freq, piece3) \<Rightarrow>
                         (case all_part_loop C shared rest of
                            (Inl e, rest') \<Rightarrow> (Inl e, piece3 # rest')
                          | (Inr ngram_freqs, rest') \<Rightarrow>
                              (Inr (freq # ngram_freqs), piece3 # rest'))))))"

definition all_part_modules :: "'p collaborators \<Rightarrow> 'p list \<Rightarrow> pyval \<Rightarrow> (error + pyval) \<times> 'p list" where
  "all_part_modules C pieces shared =
     (case all_part_loop C shared pieces of
        (Inl e, pieces') \<Rightarrow> (Inl e, pieces')
      | (Inr ngram_freqs, pieces') \<Rightarrow> (aggregate_and_sort C pieces' ngram_freqs, pieces'))"

subsection \<open>run()\<close>

definition possible_instructions :: "string list" where
  "possible_instructions =
     [''all-combinations intervals'', ''all 2-part interval n-grams'', ''all-voice interval n-grams'']"

definition error_msg :: string where
  "error_msg = ''WorkflowManager.run() could not parse the instruction''"

text \<open>\<open>_for_sc\<close> has the body \<open>pass\<close>: it returns \<open>None\<close>.\<close>

definition for_sc :: "pyval \<Rightarrow> pyval" where
  "for_sc to_format = PNone"

text \<open>
  What \<open>run\<close> does with the outcome of the workflow it chose: an exception of the
  workflow leaves \<open>run\<close>; otherwise the result is formatted for SuperCollider when the
  instruction asks for it (\<open>rfind\<close> is not \<open>-1\<close> when the text occurs), stored in
  \<open>self._result\<close> and returned.
\<close>

definition run_finish ::
  "'p WorkflowManager \<Rightarrow> string \<Rightarrow> (error + pyval) \<times> 'p list \<Rightarrow> (error + pyval) \<times> 'p WorkflowManager" where
  "run_finish wm instruction outcome =
     (case outcome of
        (Inl e, pieces) \<Rightarrow> (Inl e, wm\<lparr>wm_data := pieces\<rparr>)
      | (Inr post, pieces) \<Rightarrow>
          (let post' = (if sublist '' for SuperCollider'' instruction then for_sc post else post)
           in (Inr post', wm\<lparr>wm_data := pieces, wm_result := post'\<rparr>)))"

definition run ::
  "'p collaborators \<Rightarrow> 'p WorkflowManager \<Rightarrow> string \<Rightarrow> pyval \<Rightarrow> (error + pyval) \<times> 'p WorkflowManager" where
  "run C wm instruction setts =
     (if length instruction < min_list (map length possible_instructions)
      then (Inl (RuntimeError error_msg), wm)
      else if prefix (possible_instructions ! 0) instruction
      then run_finish wm instruction (intervs C (wm_data wm) setts)
      else if prefix (possible_instructions ! 1) instruction
      then run_finish wm instruction (two_part_modules C (wm_data wm) setts)
      else if prefix (possible_instructions ! 2) instruction
      then run_finish wm instruction (all_part_modules C (wm_data wm) setts)
      else (Inl (RuntimeError error_msg), wm))"

section \<open>The IndexedPiece (indexed_piece.py)\<close>

subsection \<open>Scores, series and tables\<close>

text \<open>
  An offset is a time coordinate in quarter notes. A pitch has its name with octave and
  its pitch-space number \<open>ps\<close>, by which music21 orders pitches. \<open>event.tie\<close> is \<open>None\<close> or
  a tie of type start, continue or stop.
\<close>

type_synonym offset = rat

datatype pitch = Pitch (nameWithOctave: string) (ps: rat)

datatype tie = TieStart | TieContinue | TieStop

text \<open>
  The music21 objects a part holds, by the attributes the program reads: a note, a rest
  and a chord (with \<open>tie\<close>), a \<open>Voice\<close> stream (with its \<open>len\<close>), a measure (with its
  number) and any other object (with its class name).
\<close>

datatype m21 =
    Note pitch "tie option"
  | Rest "tie option"
  | Chord "pitch list" "tie option"
  | Voice nat
  | Measure int
  | OtherObject string

text \<open>
  A \<open>pandas.Series\<close> with no missing value is the list of its (index, value) rows. A
  \<open>pandas.DataFrame\<close> has column labels and rows; a cell is \<open>None\<close> where pandas has
  \<open>NaN\<close>. Integer column labels are written as their decimal text. The column labels
  are an \<open>Index\<close> or a \<open>MultiIndex\<close>: \<open>columns\<close> holds the labels, those of the first
  level for a \<open>MultiIndex\<close> (what \<open>key in df\<close> tests), and \<open>level1\<close> is \<open>None\<close> for an
  \<open>Index\<close> and holds the labels of the second level of a \<open>MultiIndex\<close>.
\<close>

type_synonym 'c series = "(offset \<times> 'c) list"

record 'c frame =
  columns :: "string list"
  level1 :: "string list option"
  rows :: "(offset \<times> 'c option list) list"

text \<open>
  A part stream, as \<open>_get_m21_objs\<close> reads it: the objects of \<open>p.recurse()\<close>, each with
  the offset \<open>_get_offset\<close> finds for it, and \<open>highestTime\<close>.
\<close>

record part =
  events :: "m21 series"
  highestTime :: rat

text \<open>
  What can be passed as \<open>data\<close> or \<open>settings\<close>, and what \<open>get_data\<close> returns: a plain
  value (\<open>None\<close>, a settings dict, ...), a table of indexer results, a list of such tables,
  or a table of music21 objects.
\<close>

datatype obj =
    Val pyval
  | Frame "pyval frame"
  | Frames "pyval frame list"
  | Objects "m21 frame"

subsection \<open>The filters on music21 objects\<close>

fun type_func_noterest :: "m21 \<Rightarrow> m21 option" where
  "type_func_noterest (Note p t) = Some (Note p t)"
| "type_func_noterest (Rest t) = Some (Rest t)"
| "type_func_noterest (Chord pitches t) = Some (Chord pitches t)"
| "type_func_noterest _ = None"

fun type_func_measure :: "m21 \<Rightarrow> m21 option" where
  "type_func_measure (Measure n) = Some (Measure n)"
| "type_func_measure _ = None"

fun type_func_voice :: "m21 \<Rightarrow> m21 option" where
  "type_func_voice (Voice n) = Some (Voice n)"
| "type_func_voice _ = None"

text \<open>
  \<open>_eliminate_ties\<close>: an event with a tie that is not a start becomes \<open>NaN\<close>. A \<open>NaN\<close>
  and an object with no attribute \<open>tie\<close> are returned as they are.
\<close>

fun eliminate_ties :: "m21 option \<Rightarrow> m21 option" where
  "eliminate_ties None = None"
| "eliminate_ties (Some (Note p (Some t))) = (if t \<noteq> TieStart then None else Some (Note p (Some t)))"
| "eliminate_ties (Some (Rest (Some t))) = (if t \<noteq> TieStart then None else Some (Rest (Some t)))"
| "eliminate_ties (Some (Chord pitches (Some t))) = (if t \<noteq> TieStart then None else Some (Chord pitches (Some t)))"
| "eliminate_ties (Some event) = Some event"

text \<open>
  \<open>_get_pitches\<close>: a \<open>NaN\<close> stays, a note gives the tuple of one new pitch,
  \<open>music21.pitch.Pitch(event.nameWithOctave)\<close>, a rest gives \<open>NaN\<close>, a chord gives its
  pitches. Any other object has no attribute \<open>isNote\<close>. The constructor of music21 is
  the parameter \<open>new_Pitch\<close>: the new pitch depends on the name of the note's pitch only.
\<close>

fun get_pitches :: "(string \<Rightarrow> pitch) \<Rightarrow> m21 option \<Rightarrow> error + pitch list option" where
  "get_pitches new_Pitch None = Inr None"
| "get_pitches new_Pitch (Some (Note p t)) = Inr (Some [new_Pitch (nameWithOctave p)])"
| "get_pitches new_Pitch (Some (Rest t)) = Inr None"
| "get_pitches new_Pitch (Some (Chord pitches t)) = Inr (Some pitches)"
| "get_pitches new_Pitch (Some _) = Inl (AttributeError ''object has no attribute isNote'')"

text \<open>\<open>_reinsert_rests\<close>: a float (\<open>NaN\<close>) becomes a new rest, any object is returned.\<close>

fun reinsert_rests :: "m21 option \<Rightarrow> m21" where
  "reinsert_rests None = Rest None"
| "reinsert_rests (Some event) = event"

subsection \<open>pandas.concat(..., axis=1)\<close>

text \<open>
  The columns are the given series. When all series have the same index, the table keeps
  it; otherwise pandas aligns the series on the sorted union of their indices (outer
  join), which needs every index to be free of duplicates. An empty list is refused.
  An unnamed series gets its position as column label. The labels given here are those
  of an \<open>Index\<close>.
\<close>

definition same_index :: "'c series list \<Rightarrow> bool" where
  "same_index sers = list_all (\<lambda>s. map fst s = map fst (hd sers)) sers"

definition union_index :: "'c series list \<Rightarrow> offset list" where
  "union_index sers = sort (remdups (concat (map (map fst) sers)))"

definition concat_axis1 :: "string list \<Rightarrow> 'c series list \<Rightarrow> error + 'c frame" where
  "concat_axis1 labels sers =
     (if sers = [] then Inl (ValueError ''No objects to concatenate'')
      else if same_index sers
      then Inr \<lparr>columns = labels, level1 = None,
                rows = map (\<lambda>k. (fst (hd sers ! k), map (\<lambda>s. Some (snd (s ! k))) sers))
                           [0 ..< length (hd sers)]\<rparr>
      else if list_ex (\<lambda>s. \<not> distinct (map fst s)) sers
      then Inl (ValueError ''cannot reindex from a duplicate axis'')
      else Inr \<lparr>columns = labels, level1 = None,
                rows = map (\<lambda>off. (off, map (\<lambda>s. map_of s off) sers)) (union_index sers)\<rparr>)"

definition positions :: "'a list \<Rightarrow> string list" where
  "positions xs = map str_nat [0 ..< length xs]"

text \<open>Column \<open>x\<close> of a table without its missing values: \<open>df.iloc[:, x].dropna()\<close>.\<close>

definition column_dropna :: "'c frame \<Rightarrow> nat \<Rightarrow> 'c series" where
  "column_dropna df x =
     concat (map (\<lambda>(off, cells). case cells ! x of None \<Rightarrow> [] | Some v \<Rightarrow> [(off, v)]) (rows df))"

subsection \<open>The voice combiner\<close>

text \<open>
  The slices \<open>ser.iloc[indecies[-2] : indecies[-1]]\<close>, one per \<open>Voice\<close> object of the
  part: \<open>start\<close> is the last element of \<open>indecies\<close>.
\<close>

fun voice_slices :: "m21 series \<Rightarrow> nat \<Rightarrow> m21 list \<Rightarrow> m21 series list" where
  "voice_slices ser start [] = []"
| "voice_slices ser start (Voice n # voices) =
     take n (drop start ser) # voice_slices ser (n + start) voices"
| "voice_slices ser start (_ # voices) = voice_slices ser start voices"

text \<open>\<open>df.applymap(_get_pitches)\<close> on one row of cells.\<close>

fun applymap_get_pitches ::
  "(string \<Rightarrow> pitch) \<Rightarrow> m21 option list \<Rightarrow> error + pitch list option list" where
  "applymap_get_pitches new_Pitch [] = Inr []"
| "applymap_get_pitches new_Pitch (c # cs) =
     bindE (get_pitches new_Pitch c) (\<lambda>x.
     bindE (applymap_get_pitches new_Pitch cs) (\<lambda>xs. Inr (x # xs)))"

text \<open>
  The function applied to each row: the pitches of the cells that are not \<open>NaN\<close>, in
  the order of the columns, sorted with \<open>reverse=True\<close> (descending, pitches that compare
  equal keep their order), as one new chord.
\<close>

definition condense :: "pitch list option list \<Rightarrow> m21" where
  "condense x = Chord (sort_key (\<lambda>p. - ps p) (concat (map (\<lambda>c. case c of None \<Rightarrow> [] | Some lyst \<Rightarrow> lyst) x))) None"

fun combine_rows ::
  "(string \<Rightarrow> pitch) \<Rightarrow> (offset \<times> m21 option list) list \<Rightarrow> error + m21 series" where
  "combine_rows new_Pitch [] = Inr []"
| "combine_rows new_Pitch ((off, cells) # rest) =
     bindE (applymap_get_pitches new_Pitch cells) (\<lambda>x.
     bindE (combine_rows new_Pitch rest) (\<lambda>res.
     Inr ((off, reinsert_rests (Some (condense x))) # res)))"

definition combine_voices ::
  "(string \<Rightarrow> pitch) \<Rightarrow> m21 series \<Rightarrow> m21 series \<Rightarrow> error + m21 series" where
  "combine_voices new_Pitch ser part =
     (let voices = List.map_filter (\<lambda>(off, event). type_func_voice event) part
      in if length voices < 1 then Inr ser
         else bindE (concat_axis1 (positions voices) (voice_slices ser 0 voices))
                (\<lambda>df. combine_rows new_Pitch (rows df)))"

subsection \<open>Shifting horizontal intervals to the first note\<close>

text \<open>
  \<open>_attach_before\<close>: each column without its missing values gets the index
  \<open>numpy.insert(ser.index, 0, 0.0)[:-1]\<close>, and the columns are joined again under their
  labels (each series keeps the label of its column as its name, a tuple when the labels
  are a \<open>MultiIndex\<close>).
\<close>

definition shift_index :: "'c series \<Rightarrow> 'c series" where
  "shift_index ser = zip (butlast (0 # map fst ser)) (map snd ser)"

definition attach_before :: "'c frame \<Rightarrow> error + 'c frame" where
  "attach_before df =
     bindE (concat_axis1 (columns df)
              (map (\<lambda>x. shift_index (column_dropna df x)) [0 ..< length (columns df)]))
       (\<lambda>post. Inr (post\<lparr>level1 := level1 df\<rparr>))"

subsection \<open>The piece and its cache\<close>

text \<open>
  \<open>self._analyses\<close> is a dict that the program reads and writes under fifteen literal
  keys only. It is modelled with one field per key, \<open>None\<close> when the key is absent, so
  that each entry has the type of what the program stores under it.
\<close>

record analyses =
  c_part_streams :: "part list option"
  c_m21_objs :: "m21 series list option"
  c_m21_nrc_objs :: "m21 frame option"
  c_m21_nrc_objs_no_tied :: "m21 frame option"
  c_noterest :: "pyval frame option"
  c_multistop :: "pyval frame option"
  c_duration :: "pyval frame option"
  c_active_voices :: "pyval frame option"
  c_beat_strength :: "pyval frame option"
  c_fermata :: "pyval frame option"
  c_vertical_interval :: "pyval frame option"
  c_horizontal_interval :: "pyval frame option"
  c_dissonance :: "pyval frame option"
  c_m21_measure_objs :: "m21 frame option"
  c_measure :: "pyval frame option"

definition no_analyses :: analyses where
  "no_analyses =
     \<lparr>c_part_streams = None, c_m21_objs = None, c_m21_nrc_objs = None,
      c_m21_nrc_objs_no_tied = None, c_noterest = None, c_multistop = None,
      c_duration = None, c_active_voices = None, c_beat_strength = None, c_fermata = None,
      c_vertical_interval = None, c_horizontal_interval = None, c_dissonance = None,
      c_m21_measure_objs = None, c_measure = None\<rparr>"

text \<open>
  The state of an \<open>IndexedPiece\<close> that \<open>get_data\<close> and \<open>metadata\<close> read: the metadata,
  the score (\<open>None\<close>, or its parts) and the cache. Of \<open>self._metadata\<close>, the entry
  \<open>'pathname'\<close> is kept apart in \<open>ip_pathname\<close>, as the string that \<open>__init__\<close> gets
  (it appears in the printed form of the piece); \<open>ip_metadata\<close> holds the other
  entries. The field \<open>ip_probe\<close> is not in the program: it is the call-count probe, the
  list of the analyzers that were run on this piece, in order.
\<close>

record IndexedPiece =
  ip_pathname :: string
  ip_metadata :: "(string \<times> pyval) list"
  ip_score :: "part list option"
  ip_analyses :: analyses
  ip_probe :: "string list"

text \<open>
  \<open>IndexedPiece(pathname, score=score)\<close>: \<open>init_metadata\<close> gives every field of
  \<open>field_list\<close> the empty string.
\<close>

definition field_list :: "string list" where
  "field_list =
     [''opusNumber'', ''movementName'', ''composer'', ''number'', ''anacrusis'',
      ''movementNumber'', ''date'', ''composers'', ''alternativeTitle'', ''title'',
      ''localeOfComposition'', ''parts'']"

definition new_IndexedPiece :: "string \<Rightarrow> part list option \<Rightarrow> IndexedPiece" where
  "new_IndexedPiece pathname score =
     \<lparr>ip_pathname = pathname, ip_metadata = map (\<lambda>field. (field, PStr [])) field_list,
      ip_score = score, ip_analyses = no_analyses, ip_probe = []\<rparr>"

text \<open>
  \<open>metadata(field)\<close>, the call with no \<open>value\<close>, which reads a field: a \<open>field\<close> that
  is not a string and a field that the metadata do not hold are refused.
\<close>

definition META_INVALID_TYPE :: string where
  "META_INVALID_TYPE = ''metadata(): parameter '' @ [CHR 0x27] @ ''field'' @ [CHR 0x27] @
     '' must be of type '' @ [CHR 0x27] @ ''string'' @ [CHR 0x27]"

definition INVALID_FIELD :: "string \<Rightarrow> string" where
  "INVALID_FIELD field = ''metadata(): invalid field ('' @ field @ '')''"

definition metadata :: "IndexedPiece \<Rightarrow> pyval \<Rightarrow> error + pyval" where
  "metadata p field =
     (case field of
        PStr f \<Rightarrow>
          (if f = ''pathname'' then Inr (PStr (ip_pathname p))
           else (case map_of (ip_metadata p) f of
                   None \<Rightarrow> Inl (AttributeError (INVALID_FIELD f))
                 | Some v \<Rightarrow> Inr v))
      | _ \<Rightarrow> Inl (TypeError META_INVALID_TYPE))"

text \<open>
  The analyzers come from modules that this repository's files do not contain
  (\<open>noterest\<close>, \<open>interval\<close>, \<open>active_voices\<close>, ...), or inherit their \<open>run\<close> from the
  base class \<open>Indexer\<close>, which the files do not contain either. Constructing one and
  calling its \<open>run\<close> is a parameter of the model: a function of the arguments the program
  passes, which returns a table or raises. \<open>run_class\<close> is the same for the classes that
  the table of \<open>__init__\<close> holds directly; it gets the positional and the keyword
  arguments. Of the base class, \<open>meter.DurationIndexer\<close> uses the constructor
  (\<open>Indexer_init score\<close> is the value it leaves in \<open>self._score\<close>) and
  \<open>make_return\<close>. \<open>music21_Pitch\<close> is the constructor \<open>music21.pitch.Pitch\<close>.
  What \<open>workflow.py\<close> uses and the files do not contain: \<open>interval.key_to_tuple\<close>,
  \<open>get_data\<close> of \<open>AggregatedPieces\<close>, and the form in which the operations of the
  workflows see the result of an analysis (\<open>as_value\<close>).
\<close>

record library =
  music21_Pitch :: "string \<Rightarrow> pitch"
  run_NoteRestIndexer :: "m21 frame \<Rightarrow> error + pyval frame"
  run_MultiStopIndexer :: "m21 frame \<Rightarrow> error + pyval frame"
  Indexer_init :: "obj \<Rightarrow> error + obj"
  make_return :: "string list \<Rightarrow> rat frame \<Rightarrow> error + pyval frame"
  run_ActiveVoicesIndexer :: "obj \<Rightarrow> obj \<Rightarrow> error + pyval frame"
  ActiveVoicesIndexer_default_settings :: "(string \<times> pyval) list"
  run_NoteBeatStrengthIndexer :: "m21 frame \<Rightarrow> error + pyval frame"
  run_FermataIndexer :: "m21 frame \<Rightarrow> error + pyval frame"
  run_IntervalIndexer :: "pyval frame \<Rightarrow> pyval \<Rightarrow> error + pyval frame"
  run_HorizontalIntervalIndexer :: "pyval frame \<Rightarrow> pyval \<Rightarrow> error + pyval frame"
  run_IntervalReindexer :: "pyval frame \<Rightarrow> obj \<Rightarrow> error + pyval frame"
  run_DissonanceIndexer :: "pyval frame list \<Rightarrow> error + pyval frame"
  run_MeasureIndexer :: "m21 frame \<Rightarrow> error + pyval frame"
  run_NGramIndexer :: "obj \<Rightarrow> obj \<Rightarrow> error + pyval frame"
  run_class :: "analyzer \<Rightarrow> obj list \<Rightarrow> (string \<times> obj) list \<Rightarrow> error + obj"
  interval_key_to_tuple :: "string \<Rightarrow> error + int \<times> int"
  AggregatedPieces_get_data :: "IndexedPiece list \<Rightarrow> analyzer list \<Rightarrow> pyval list \<Rightarrow> error + pyval"
  as_value :: "obj \<Rightarrow> pyval"

text \<open>
  A method of the piece is an action: from the state of the piece to its result or
  exception and the state it leaves. \<open>recorded name r\<close> is a run of the analyzer
  \<open>name\<close> with outcome \<open>r\<close>: the probe counts it.
\<close>

type_synonym 'a action = "IndexedPiece \<Rightarrow> (error + 'a) \<times> IndexedPiece"

definition bindA :: "'a action \<Rightarrow> ('a \<Rightarrow> 'b action) \<Rightarrow> 'b action" where
  "bindA m f p = (case m p of (Inl e, p') \<Rightarrow> (Inl e, p') | (Inr x, p') \<Rightarrow> f x p')"

definition returnA :: "'a \<Rightarrow> 'a action" where
  "returnA x p = (Inr x, p)"

definition liftE :: "error + 'a \<Rightarrow> 'a action" where
  "liftE r p = (r, p)"

definition recorded :: "string \<Rightarrow> error + 'a \<Rightarrow> 'a action" where
  "recorded name r p = (r, p\<lparr>ip_probe := ip_probe p @ [name]\<rparr>)"

definition store :: "(analyses \<Rightarrow> analyses) \<Rightarrow> 'a \<Rightarrow> 'a action" where
  "store upd x p = (Inr x, p\<lparr>ip_analyses := upd (ip_analyses p)\<rparr>)"

subsection \<open>From the score to the table of notes, rests and chords\<close>

definition get_part_streams :: "part list action" where
  "get_part_streams p =
     (case c_part_streams (ip_analyses p) of
        Some streams \<Rightarrow> (Inr streams, p)
      | None \<Rightarrow>
          (case ip_score p of
             None \<Rightarrow> (Inl (AttributeError ''NoneType object has no attribute parts''), p)
           | Some parts \<Rightarrow> store (\<lambda>a. a\<lparr>c_part_streams := Some parts\<rparr>) parts p))"

definition get_m21_objs :: "m21 series list action" where
  "get_m21_objs p =
     (case c_m21_objs (ip_analyses p) of
        Some sers \<Rightarrow> (Inr sers, p)
      | None \<Rightarrow>
          bindA get_part_streams (\<lambda>parts.
            let sers = map events parts in store (\<lambda>a. a\<lparr>c_m21_objs := Some sers\<rparr>) sers) p)"

text \<open>
  The loop of \<open>_get_m21_nrc_objs\<close> over the filtered series: a series whose index is not
  unique is replaced by the combined voices of its part, \<open>self._get_m21_objs()[i]\<close>.
\<close>

fun combine_where_needed ::
  "(string \<Rightarrow> pitch) \<Rightarrow> m21 series list \<Rightarrow> m21 series list \<Rightarrow> error + m21 series list" where
  "combine_where_needed new_Pitch [] parts = Inr []"
| "combine_where_needed new_Pitch (ser # sers) parts =
     bindE (if \<not> distinct (map fst ser)
            then (case parts of [] \<Rightarrow> Inl (IndexError ''list index out of range'')
                  | part # _ \<Rightarrow> combine_voices new_Pitch ser part)
            else Inr ser) (\<lambda>ser'.
     bindE (combine_where_needed new_Pitch sers (tl parts)) (\<lambda>sers'. Inr (ser' # sers')))"

definition filter_series :: "(m21 \<Rightarrow> m21 option) \<Rightarrow> m21 series \<Rightarrow> m21 series" where
  "filter_series type_func s =
     List.map_filter (\<lambda>(off, event). map_option (Pair off) (type_func event)) s"

definition get_m21_nrc_objs :: "library \<Rightarrow> m21 frame action" where
  "get_m21_nrc_objs L p =
     (case c_m21_nrc_objs (ip_analyses p) of
        Some df \<Rightarrow> (Inr df, p)
      | None \<Rightarrow>
          bindA get_m21_objs (\<lambda>objs.
          bindA (liftE (combine_where_needed (music21_Pitch L)
                          (map (filter_series type_func_noterest) objs) objs)) (\<lambda>sers.
          bindA (liftE (concat_axis1 (positions sers) sers)) (\<lambda>df.
          store (\<lambda>a. a\<lparr>c_m21_nrc_objs := Some df\<rparr>) df))) p)"

text \<open>\<open>applymap(_eliminate_ties).dropna(how='all')\<close>: a row of missing values only is dropped.\<close>

definition no_tied :: "m21 frame \<Rightarrow> m21 frame" where
  "no_tied df =
     df\<lparr>rows := filter (\<lambda>(off, cells). list_ex (\<lambda>c. c \<noteq> None) cells)
                  (map (\<lambda>(off, cells). (off, map eliminate_ties cells)) (rows df))\<rparr>"

definition get_m21_nrc_objs_no_tied :: "library \<Rightarrow> m21 frame action" where
  "get_m21_nrc_objs_no_tied L p =
     (case c_m21_nrc_objs_no_tied (ip_analyses p) of
        Some df \<Rightarrow> (Inr df, p)
      | None \<Rightarrow>
          bindA (get_m21_nrc_objs L) (\<lambda>df.
            let df' = (if length (rows df) = 0 then df else no_tied df)
            in store (\<lambda>a. a\<lparr>c_m21_nrc_objs_no_tied := Some df'\<rparr>) df') p)"

definition get_m21_measure_objs :: "m21 frame action" where
  "get_m21_measure_objs p =
     (case c_m21_measure_objs (ip_analyses p) of
        Some df \<Rightarrow> (Inr df, p)
      | None \<Rightarrow>
          bindA get_m21_objs (\<lambda>objs.
            let sers = map (filter_series type_func_measure) objs
            in bindA (liftE (concat_axis1 (positions sers) sers)) (\<lambda>df.
               store (\<lambda>a. a\<lparr>c_m21_measure_objs := Some df\<rparr>) df)) p)"

subsection \<open>Tests on a settings argument\<close>

text \<open>
  The parameter \<open>settings\<close> of a handler holds whatever the call bound to it. On a dict
  the tests are those of Python; a table answers \<open>key in settings\<close> by its column labels
  and has no truth value for a comparison of a column (\<open>df[key]\<close> is a series, or a table
  when several columns have the label); a list compares its elements, here tables, with
  the key.
\<close>

fun obj_contains :: "obj \<Rightarrow> string \<Rightarrow> error + bool" where
  "obj_contains (Val v) k = py_contains v k"
| "obj_contains (Frame df) k = Inr (k \<in> set (columns df))"
| "obj_contains (Objects df) k = Inr (k \<in> set (columns df))"
| "obj_contains (Frames dfs) k =
     (if dfs = [] then Inr False else Inl (ValueError ''The truth value of a DataFrame is ambiguous''))"

definition ambiguous :: "'c frame \<Rightarrow> string \<Rightarrow> error" where
  "ambiguous df k =
     (if level1 df = None \<and> count_list (columns df) k = 1
      then ValueError ''The truth value of a Series is ambiguous''
      else ValueError ''The truth value of a DataFrame is ambiguous'')"

fun obj_test :: "obj \<Rightarrow> string \<Rightarrow> (pyval \<Rightarrow> error + bool) \<Rightarrow> error + bool" where
  "obj_test (Val v) k test = bindE (py_getitem v k) test"
| "obj_test (Frame df) k test =
     (if k \<in> set (columns df) then Inl (ambiguous df k) else Inl (KeyError k))"
| "obj_test (Objects df) k test =
     (if k \<in> set (columns df) then Inl (ambiguous df k) else Inl (KeyError k))"
| "obj_test (Frames dfs) k test = Inl (TypeError ''list indices must be integers'')"

text \<open>\<open>bool(v)\<close>, \<open>v == True\<close>, \<open>v == s\<close> for a string \<open>s\<close>, and \<open>v in (True, 'diatonic with quality')\<close>.\<close>

fun py_truth :: "pyval \<Rightarrow> error + bool" where
  "py_truth PNone = Inr False"
| "py_truth (PBool b) = Inr b"
| "py_truth (PInt i) = Inr (i \<noteq> 0)"
| "py_truth (PFloat r) = Inr (r \<noteq> 0)"
| "py_truth (PStr s) = Inr (s \<noteq> [])"
| "py_truth (PList xs) = Inr (xs \<noteq> [])"
| "py_truth (PDict kvs) = Inr (kvs \<noteq> [])"
| "py_truth (PSeries r) = Inl (ValueError ''The truth value of a Series is ambiguous'')"

fun eq_True :: "pyval \<Rightarrow> error + bool" where
  "eq_True (PBool b) = Inr b"
| "eq_True (PInt i) = Inr (i = 1)"
| "eq_True (PFloat r) = Inr (r = 1)"
| "eq_True (PSeries r) = Inl (ValueError ''The truth value of a Series is ambiguous'')"
| "eq_True _ = Inr False"

fun eq_str :: "string \<Rightarrow> pyval \<Rightarrow> error + bool" where
  "eq_str s (PStr t) = Inr (t = s)"
| "eq_str s (PSeries r) = Inl (ValueError ''The truth value of a Series is ambiguous'')"
| "eq_str s _ = Inr False"

definition in_quality :: "pyval \<Rightarrow> error + bool" where
  "in_quality v = bindE (eq_True v) (\<lambda>b. if b then Inr True else eq_str ''diatonic with quality'' v)"

definition not_truth :: "pyval \<Rightarrow> error + bool" where
  "not_truth v = bindE (py_truth v) (\<lambda>b. Inr (\<not> b))"

text \<open>Python's \<open>and\<close> and \<open>or\<close> on tests that may raise: the right operand is evaluated only when needed.\<close>

definition andE :: "error + bool \<Rightarrow> error + bool \<Rightarrow> error + bool" where
  "andE a b = bindE a (\<lambda>x. if x then b else Inr False)"

definition orE :: "error + bool \<Rightarrow> error + bool \<Rightarrow> error + bool" where
  "orE a b = bindE a (\<lambda>x. if x then Inr True else b)"

definition notE :: "error + bool \<Rightarrow> error + bool" where
  "notE a = bindE a (\<lambda>x. Inr (\<not> x))"

text \<open>
  The parenthesised condition of both interval handlers: the settings ask for
  directed intervals with quality, compound.
\<close>

definition complete_settings :: "obj \<Rightarrow> error + bool" where
  "complete_settings setts =
     andE (obj_contains setts ''directed'')
    (andE (obj_test setts ''directed'' eq_True)
    (andE (obj_contains setts ''quality'')
    (andE (obj_test setts ''quality'' in_quality)
    (andE (obj_contains setts ''simple or compound'')
          (obj_test setts ''simple or compound'' (eq_str ''compound''))))))"

definition default_interval_setts :: pyval where
  "default_interval_setts =
     PDict [(''quality'', PBool True), (''directed'', PBool True),
            (''simple or compound'', PStr ''compound''), (''horiz_attach_later'', PBool True)]"

text \<open>
  \<open>a == b\<close> as a truth value. Numbers are equal when their values are, \<open>True\<close> counting
  as 1 and \<open>False\<close> as 0; strings when they are the same; lists when they have the same
  length and equal elements, compared in order up to the first difference; dicts when
  they have the same number of items and every key of the first has an equal value in
  the second. Values of different kinds are not equal. A comparison with a
  \<open>pandas.Series\<close> has no truth value.
\<close>

fun number :: "pyval \<Rightarrow> rat option" where
  "number (PBool b) = Some (if b then 1 else 0)"
| "number (PInt i) = Some (of_int i)"
| "number (PFloat r) = Some r"
| "number _ = None"

fun is_series :: "pyval \<Rightarrow> bool" where
  "is_series (PSeries r) = True"
| "is_series _ = False"

fun py_eq :: "pyval \<Rightarrow> pyval \<Rightarrow> error + bool"
  and py_eq_list :: "pyval list \<Rightarrow> pyval list \<Rightarrow> error + bool"
  and py_eq_items :: "(string \<times> pyval) list \<Rightarrow> (string \<times> pyval) list \<Rightarrow> error + bool" where
  "py_eq (PSeries r) b = Inl (ValueError ''The truth value of a Series is ambiguous'')"
| "py_eq PNone b =
     (if is_series b then Inl (ValueError ''The truth value of a Series is ambiguous'')
      else Inr (b = PNone))"
| "py_eq (PBool x) b =
     (if is_series b then Inl (ValueError ''The truth value of a Series is ambiguous'')
      else Inr (number b = number (PBool x)))"
| "py_eq (PInt x) b =
     (if is_series b then Inl (ValueError ''The truth value of a Series is ambiguous'')
      else Inr (number b = number (PInt x)))"
| "py_eq (PFloat x) b =
     (if is_series b then Inl (ValueError ''The truth value of a Series is ambiguous'')
      else Inr (number b = number (PFloat x)))"
| "py_eq (PStr x) b =
     (if is_series b then Inl (ValueError ''The truth value of a Series is ambiguous'')
      else Inr (b = PStr x))"
| "py_eq (PList xs) b =
     (case b of
        PList ys \<Rightarrow> if length xs \<noteq> length ys then Inr False else py_eq_list xs ys
      | PSeries r \<Rightarrow> Inl (ValueError ''The truth value of a Series is ambiguous'')
      | _ \<Rightarrow> Inr False)"
| "py_eq (PDict xs) b =
     (case b of
        PDict ys \<Rightarrow> if length xs \<noteq> length ys then Inr False else py_eq_items xs ys
      | PSeries r \<Rightarrow> Inl (ValueError ''The truth value of a Series is ambiguous'')
      | _ \<Rightarrow> Inr False)"
| "py_eq_list [] ys = Inr True"
| "py_eq_list (x # xs) ys =
     (case ys of
        [] \<Rightarrow> Inr False
      | y # ys' \<Rightarrow> bindE (py_eq x y) (\<lambda>same. if same then py_eq_list xs ys' else Inr False))"
| "py_eq_items [] ys = Inr True"
| "py_eq_items ((k, v) # xs) ys =
     (case map_of ys k of
        None \<Rightarrow> Inr False
      | Some w \<Rightarrow> bindE (py_eq v w) (\<lambda>same. if same then py_eq_items xs ys else Inr False))"

text \<open>
  \<open>settings == default_settings\<close> for the dict of defaults. A list is not equal to a
  dict; the comparison of a table with a dict has no truth value.
\<close>

fun eq_dict :: "obj \<Rightarrow> (string \<times> pyval) list \<Rightarrow> error + bool" where
  "eq_dict (Val v) d = py_eq v (PDict d)"
| "eq_dict (Frames dfs) d = Inr False"
| "eq_dict _ d = Inl (ValueError ''The truth value of a DataFrame is ambiguous'')"

subsection \<open>meter.DurationIndexer\<close>

text \<open>
  The loop of \<open>DurationIndexer.run\<close> over the columns of the score: the index of the
  column without its missing values, with \<open>highestTime\<close> of the part stream of the same
  position appended, gives the differences of consecutive offsets as a series on that
  index.
\<close>

fun durations :: "'c frame \<Rightarrow> part list \<Rightarrow> nat list \<Rightarrow> error + rat series list" where
  "durations score part_streams [] = Inr []"
| "durations score part_streams (part # todo) =
     (let indx = map fst (column_dropna score part)
      in if part < length part_streams
         then let new = indx @ [highestTime (part_streams ! part)]
              in bindE (durations score part_streams todo) (\<lambda>rest.
                 Inr (zip indx (map (\<lambda>(a, b). a - b) (zip (tl new) indx)) # rest))
         else Inl (IndexError ''list index out of range''))"

text \<open>
  The \<open>result\<close> of \<open>run\<close>: a copy of a score with no rows, otherwise the series of
  durations joined as columns.
\<close>

definition durations_table :: "'c frame \<Rightarrow> part list \<Rightarrow> error + rat frame" where
  "durations_table score part_streams =
     (if length (rows score) = 0
      then Inr \<lparr>columns = columns score, level1 = level1 score, rows = []\<rparr>
      else bindE (durations score part_streams [0 ..< length (columns score)]) (\<lambda>ds.
           concat_axis1 (positions ds) ds))"

text \<open>
  \<open>self._score.columns.get_level_values(1)\<close>: the labels of the second level, which an
  \<open>Index\<close> does not have.
\<close>

definition get_level_values_1 :: "'c frame \<Rightarrow> error + string list" where
  "get_level_values_1 score =
     (case level1 score of
        None \<Rightarrow> Inl (IndexError ''Too many levels: Index has only 1 level, not 2'')
      | Some labels \<Rightarrow> Inr labels)"

definition run_on_table :: "library \<Rightarrow> 'c frame \<Rightarrow> part list \<Rightarrow> error + pyval frame" where
  "run_on_table L score part_streams =
     bindE (durations_table score part_streams) (\<lambda>result.
     bindE (get_level_values_1 score) (\<lambda>labels.
     make_return L labels result))"

text \<open>
  \<open>run\<close> on what the constructor left in \<open>self._score\<close>. A value that is not a table
  has no attribute \<open>columns\<close>, and a number has no \<open>len\<close>; the empty string has no
  \<open>copy\<close> either.
\<close>

fun run_on_score :: "library \<Rightarrow> obj \<Rightarrow> part list \<Rightarrow> error + pyval frame" where
  "run_on_score L (Frame df) part_streams = run_on_table L df part_streams"
| "run_on_score L (Objects df) part_streams = run_on_table L df part_streams"
| "run_on_score L (Frames dfs) part_streams = Inl (AttributeError ''object has no attribute columns'')"
| "run_on_score L (Val v) part_streams =
     bindE (py_len v) (\<lambda>n.
       if v = PStr [] then Inl (AttributeError ''object has no attribute copy'')
       else Inl (AttributeError ''object has no attribute columns''))"

text \<open>\<open>meter.DurationIndexer(score, part_streams).run()\<close>.\<close>

definition run_DurationIndexer :: "library \<Rightarrow> obj \<Rightarrow> part list \<Rightarrow> error + pyval frame" where
  "run_DurationIndexer L score part_streams =
     bindE (Indexer_init L score) (\<lambda>kept. run_on_score L kept part_streams)"

subsection \<open>The caching handlers\<close>

definition get_noterest :: "library \<Rightarrow> pyval frame action" where
  "get_noterest L p =
     (case c_noterest (ip_analyses p) of
        Some r \<Rightarrow> (Inr r, p)
      | None \<Rightarrow>
          bindA (get_m21_nrc_objs_no_tied L) (\<lambda>df.
          bindA (recorded ''noterest.NoteRestIndexer'' (run_NoteRestIndexer L df))
            (\<lambda>r. store (\<lambda>a. a\<lparr>c_noterest := Some r\<rparr>) r)) p)"

definition get_multistop :: "library \<Rightarrow> pyval frame action" where
  "get_multistop L p =
     (case c_multistop (ip_analyses p) of
        Some r \<Rightarrow> (Inr r, p)
      | None \<Rightarrow>
          bindA (get_m21_nrc_objs_no_tied L) (\<lambda>df.
          bindA (recorded ''noterest.MultiStopIndexer'' (run_MultiStopIndexer L df))
            (\<lambda>r. store (\<lambda>a. a\<lparr>c_multistop := Some r\<rparr>) r)) p)"

definition get_duration :: "library \<Rightarrow> obj \<Rightarrow> pyval frame action" where
  "get_duration L data p =
     (if data \<noteq> Val PNone
      then bindA get_part_streams (\<lambda>parts.
             recorded ''meter.DurationIndexer'' (run_DurationIndexer L data parts)) p
      else (case c_duration (ip_analyses p) of
              Some r \<Rightarrow> (Inr r, p)
            | None \<Rightarrow>
                bindA (get_m21_nrc_objs_no_tied L) (\<lambda>df.
                bindA get_part_streams (\<lambda>parts.
                bindA (recorded ''meter.DurationIndexer'' (run_DurationIndexer L (Objects df) parts))
                  (\<lambda>r. store (\<lambda>a. a\<lparr>c_duration := Some r\<rparr>) r))) p))"

text \<open>
  \<open>_get_active_voices\<close>. The first branch with no \<open>data\<close> constructs the indexer with
  one argument; its \<open>settings\<close> parameter is taken to default to \<open>None\<close>.
\<close>

definition get_active_voices :: "library \<Rightarrow> obj \<Rightarrow> obj \<Rightarrow> pyval frame action" where
  "get_active_voices L data setts p =
     (if data \<noteq> Val PNone
      then recorded ''active_voices.ActiveVoicesIndexer'' (run_ActiveVoicesIndexer L data setts) p
      else bindA (liftE (andE (Inr (c_active_voices (ip_analyses p) = None))
                              (orE (Inr (setts = Val PNone))
                                   (eq_dict setts (ActiveVoicesIndexer_default_settings L)))))
             (\<lambda>first.
                if first
                then bindA (get_noterest L) (\<lambda>nr.
                     bindA (recorded ''active_voices.ActiveVoicesIndexer''
                              (run_ActiveVoicesIndexer L (Frame nr) (Val PNone)))
                       (\<lambda>r. store (\<lambda>a. a\<lparr>c_active_voices := Some r\<rparr>) r))
                else bindA (get_noterest L) (\<lambda>nr.
                       recorded ''active_voices.ActiveVoicesIndexer''
                         (run_ActiveVoicesIndexer L (Frame nr) setts))) p)"

definition get_beat_strength :: "library \<Rightarrow> pyval frame action" where
  "get_beat_strength L p =
     (case c_beat_strength (ip_analyses p) of
        Some r \<Rightarrow> (Inr r, p)
      | None \<Rightarrow>
          bindA (get_m21_nrc_objs_no_tied L) (\<lambda>df.
          bindA (recorded ''meter.NoteBeatStrengthIndexer'' (run_NoteBeatStrengthIndexer L df))
            (\<lambda>r. store (\<lambda>a. a\<lparr>c_beat_strength := Some r\<rparr>) r)) p)"

definition get_fermata :: "library \<Rightarrow> pyval frame action" where
  "get_fermata L p =
     (case c_fermata (ip_analyses p) of
        Some r \<Rightarrow> (Inr r, p)
      | None \<Rightarrow>
          bindA (get_m21_nrc_objs_no_tied L) (\<lambda>df.
          bindA (recorded ''fermata.FermataIndexer'' (run_FermataIndexer L df))
            (\<lambda>r. store (\<lambda>a. a\<lparr>c_fermata := Some r\<rparr>) r)) p)"

text \<open>
  The first statement of \<open>_get_vertical_interval\<close>: the intervals with the settings
  \<open>_default_interval_setts\<close>, computed from the note-rest table unless cached.
\<close>

definition vertical_interval_cached :: "library \<Rightarrow> pyval frame action" where
  "vertical_interval_cached L p =
     (case c_vertical_interval (ip_analyses p) of
        Some r \<Rightarrow> (Inr r, p)
      | None \<Rightarrow>
          bindA (get_noterest L) (\<lambda>nr.
          bindA (recorded ''interval.IntervalIndexer'' (run_IntervalIndexer L nr default_interval_setts))
            (\<lambda>r. store (\<lambda>a. a\<lparr>c_vertical_interval := Some r\<rparr>) r)) p)"

definition get_vertical_interval :: "library \<Rightarrow> obj \<Rightarrow> pyval frame action" where
  "get_vertical_interval L setts =
     bindA (vertical_interval_cached L) (\<lambda>cached.
     bindA (liftE (andE (Inr (setts \<noteq> Val PNone)) (notE (complete_settings setts)))) (\<lambda>reindex.
       if reindex
       then recorded ''interval.IntervalReindexer'' (run_IntervalReindexer L cached setts)
       else returnA cached))"

definition horizontal_interval_cached :: "library \<Rightarrow> pyval frame action" where
  "horizontal_interval_cached L p =
     (case c_horizontal_interval (ip_analyses p) of
        Some r \<Rightarrow> (Inr r, p)
      | None \<Rightarrow>
          bindA (get_noterest L) (\<lambda>nr.
          bindA (recorded ''interval.HorizontalIntervalIndexer''
                   (run_HorizontalIntervalIndexer L nr default_interval_setts))
            (\<lambda>r. store (\<lambda>a. a\<lparr>c_horizontal_interval := Some r\<rparr>) r)) p)"

definition get_horizontal_interval :: "library \<Rightarrow> obj \<Rightarrow> pyval frame action" where
  "get_horizontal_interval L setts =
     bindA (horizontal_interval_cached L) (\<lambda>cached.
     bindA (liftE (andE (Inr (setts \<noteq> Val PNone)) (notE (complete_settings setts)))) (\<lambda>reindex.
       if reindex
       then bindA (recorded ''interval.IntervalReindexer'' (run_IntervalReindexer L cached setts)) (\<lambda>post.
            bindA (liftE (orE (notE (obj_contains setts ''horiz_attach_later''))
                              (obj_test setts ''horiz_attach_later'' not_truth))) (\<lambda>before.
              if before then liftE (attach_before post) else returnA post))
       else returnA cached))"

definition h_setts :: pyval where
  "h_setts = PDict [(''quality'', PBool False), (''simple or compound'', PStr ''compound''),
                    (''horiz_attach_later'', PBool False)]"

definition v_setts :: pyval where
  "v_setts = PDict [(''quality'', PBool True), (''simple or compound'', PStr ''simple''),
                    (''directed'', PBool True)]"

definition get_dissonance :: "library \<Rightarrow> pyval frame action" where
  "get_dissonance L p =
     (case c_dissonance (ip_analyses p) of
        Some r \<Rightarrow> (Inr r, p)
      | None \<Rightarrow>
          bindA (get_beat_strength L) (\<lambda>b.
          bindA (get_duration L (Val PNone)) (\<lambda>d.
          bindA (get_horizontal_interval L (Val h_setts)) (\<lambda>h.
          bindA (get_vertical_interval L (Val v_setts)) (\<lambda>v.
          bindA (recorded ''dissonance.DissonanceIndexer'' (run_DissonanceIndexer L [b, d, h, v]))
            (\<lambda>r. store (\<lambda>a. a\<lparr>c_dissonance := Some r\<rparr>) r))))) p)"

definition get_measure :: "library \<Rightarrow> pyval frame action" where
  "get_measure L p =
     (case c_measure (ip_analyses p) of
        Some r \<Rightarrow> (Inr r, p)
      | None \<Rightarrow>
          bindA get_m21_measure_objs (\<lambda>df.
          bindA (recorded ''meter.MeasureIndexer'' (run_MeasureIndexer L df))
            (\<lambda>r. store (\<lambda>a. a\<lparr>c_measure := Some r\<rparr>) r)) p)"

definition get_ngram :: "library \<Rightarrow> obj \<Rightarrow> obj \<Rightarrow> pyval frame action" where
  "get_ngram L data setts = recorded ''ngram.NGramIndexer'' (run_NGramIndexer L data setts)"

subsection \<open>The analyzer table\<close>

text \<open>
  The values of the table \<open>self._mkd\<close>: a bound method of the piece or an analyzer class.
\<close>

datatype bound_method =
    M_get_active_voices
  | M_get_dissonance
  | M_get_fermata
  | M_get_horizontal_interval
  | M_get_vertical_interval
  | M_get_duration
  | M_get_measure
  | M_get_beat_strength
  | M_get_ngram
  | M_get_multistop
  | M_get_noterest

datatype handler = Method bound_method | Class analyzer

text \<open>
  The table of \<open>__init__\<close>, in its order: each entry has three keys (the short string,
  the long string, the class) and one value.
\<close>

definition mkd :: "((string \<times> string \<times> analyzer) \<times> handler) list" where
  "mkd =
     [((''annotation'', ''lilypond.AnnotationIndexer'', AnnotationIndexer), Class AnnotationIndexer),
      ((''active_voices'', ''active_voices.ActiveVoicesIndexer'', ActiveVoicesIndexer), Method M_get_active_voices),
      ((''cadence'', ''cadence.CadenceIndexer'', CadenceIndexer), Class CadenceIndexer),
      ((''contour'', ''contour.ContourIndexer'', ContourIndexer), Class ContourIndexer),
      ((''dissonance'', ''dissonance.DissonanceIndexer'', DissonanceIndexer), Method M_get_dissonance),
      ((''fermata'', ''fermata.FermataIndexer'', FermataIndexer), Method M_get_fermata),
      ((''horizontal_interval'', ''interval.HorizontalIntervalIndexer'', HorizontalIntervalIndexer), Method M_get_horizontal_interval),
      ((''vertical_interval'', ''interval.IntervalIndexer'', IntervalIndexer), Method M_get_vertical_interval),
      ((''duration'', ''meter.DurationIndexer'', DurationIndexer), Method M_get_duration),
      ((''measure'', ''meter.MeasureIndexer'', MeasureIndexer), Method M_get_measure),
      ((''beat_strength'', ''meter.NoteBeatStrengthIndexer'', NoteBeatStrengthIndexer), Method M_get_beat_strength),
      ((''ngram'', ''ngram.NGramIndexer'', NGramIndexer), Method M_get_ngram),
      ((''multistop'', ''noterest.MultiStopIndexer'', MultiStopIndexer), Method M_get_multistop),
      ((''noterest'', ''noterest.NoteRestIndexer'', NoteRestIndexer), Method M_get_noterest),
      ((''offset'', ''offset.FilterByOffsetIndexer'', FilterByOffsetIndexer), Class FilterByOffsetIndexer),
      ((''over_bass'', ''over_bass.OverBassIndexer'', OverBassIndexer), Class OverBassIndexer),
      ((''repeat'', ''repeat.FilterByRepeatIndexer'', FilterByRepeatIndexer), Class FilterByRepeatIndexer),
      ((''windexer'', ''windexer.Windexer'', Windexer), Class Windexer),
      ((''aggregator'', ''aggregator.ColumnAggregator'', ColumnAggregator), Class ColumnAggregator),
      ((''bar_chart'', ''barchart.RBarChart'', RBarChart), Class RBarChart),
      ((''frequency'', ''frequency.FrequencyExperimenter'', FrequencyExperimenter), Class FrequencyExperimenter),
      ((''annotate_the_note'', ''lilypond.AnnotateTheNoteExperimenter'', AnnotateTheNoteExperimenter), Class AnnotateTheNoteExperimenter),
      ((''lilypond'', ''lilypond.LilyPondExperimenter'', LilyPondExperimenter), Class LilyPondExperimenter),
      ((''part_notes'', ''lilypond.PartNotesExperimenter'', PartNotesExperimenter), Class PartNotesExperimenter)]"

text \<open>
  What a caller may pass as \<open>analyzer_cls\<close>: a string, a class, or a list of such. The
  table is a \<open>multi_key_dict\<close>, which keeps one dictionary per type of key: a key of a
  type it has no dictionary for, such as a list, is not in the table.
\<close>

datatype ident = IStr string | ICls analyzer | IList "ident list"

fun key_matches :: "ident \<Rightarrow> string \<times> string \<times> analyzer \<Rightarrow> bool" where
  "key_matches (IStr s) (short, long, cls) = (s = short \<or> s = long)"
| "key_matches (ICls c) (short, long, cls) = (c = cls)"
| "key_matches (IList xs) (short, long, cls) = False"

definition mkd_lookup :: "ident \<Rightarrow> handler option" where
  "mkd_lookup k = map_option snd (find (\<lambda>(key, h). key_matches k key) mkd)"

text \<open>\<open>sorted(self._mkd.keys(str))\<close>: the string keys, short and long, in order.\<close>

definition mkd_keys_str :: "string list" where
  "mkd_keys_str = sort (concat (map (\<lambda>((short, long, cls), h). [short, long]) mkd))"

subsection \<open>The messages of get_data()\<close>

definition squote :: string where
  "squote = [CHR 0x27]"

text \<open>
  The printed form of a class, of a string in a list (\<open>repr\<close>), of a list, of the
  identifier as \<open>format\<close> inserts it, and of a handler. The indexers are the first
  eighteen classes of the table, in \<open>vis.analyzers.indexers\<close>; the others are
  experimenters.
\<close>

definition class_module :: "analyzer \<Rightarrow> string" where
  "class_module c =
     (case find (\<lambda>((short, long, cls), h). cls = c) (take 18 mkd) of
        Some ((short, long, cls), h) \<Rightarrow> ''vis.analyzers.indexers.'' @ long
      | None \<Rightarrow>
          (case find (\<lambda>((short, long, cls), h). cls = c) (drop 18 mkd) of
             Some ((short, long, cls), h) \<Rightarrow> ''vis.analyzers.experimenters.'' @ long
           | None \<Rightarrow> (case c of OtherClass s \<Rightarrow> s | _ \<Rightarrow> [])))"

definition str_class :: "analyzer \<Rightarrow> string" where
  "str_class c = ''<class '' @ squote @ class_module c @ squote @ ''>''"

fun join :: "string \<Rightarrow> string list \<Rightarrow> string" where
  "join sep [] = []"
| "join sep [x] = x"
| "join sep (x # y # ys) = x @ sep @ join sep (y # ys)"

definition repr_str :: "string \<Rightarrow> string" where
  "repr_str s = squote @ s @ squote"

fun repr_ident :: "ident \<Rightarrow> string" where
  "repr_ident (IStr s) = repr_str s"
| "repr_ident (ICls c) = str_class c"
| "repr_ident (IList xs) = ''['' @ join '', '' (map repr_ident xs) @ '']''"

fun str_ident :: "ident \<Rightarrow> string" where
  "str_ident (IStr s) = s"
| "str_ident k = repr_ident k"

definition method_name :: "bound_method \<Rightarrow> string" where
  "method_name m =
     (case m of
        M_get_active_voices \<Rightarrow> ''_get_active_voices''
      | M_get_dissonance \<Rightarrow> ''_get_dissonance''
      | M_get_fermata \<Rightarrow> ''_get_fermata''
      | M_get_horizontal_interval \<Rightarrow> ''_get_horizontal_interval''
      | M_get_vertical_interval \<Rightarrow> ''_get_vertical_interval''
      | M_get_duration \<Rightarrow> ''_get_duration''
      | M_get_measure \<Rightarrow> ''_get_measure''
      | M_get_beat_strength \<Rightarrow> ''_get_beat_strength''
      | M_get_ngram \<Rightarrow> ''_get_ngram''
      | M_get_multistop \<Rightarrow> ''_get_multistop''
      | M_get_noterest \<Rightarrow> ''_get_noterest'')"

definition repr_piece :: "IndexedPiece \<Rightarrow> string" where
  "repr_piece p = ''vis.models.indexed_piece.IndexedPiece('' @ squote @ ip_pathname p @ squote @ '')''"

definition str_handler :: "IndexedPiece \<Rightarrow> handler \<Rightarrow> string" where
  "str_handler p h =
     (case h of
        Method m \<Rightarrow> ''<bound method IndexedPiece.'' @ method_name m @ '' of '' @ repr_piece p @ ''>''
      | Class c \<Rightarrow> str_class c)"

definition NOT_AN_ANALYZER :: "string \<Rightarrow> string \<Rightarrow> string" where
  "NOT_AN_ANALYZER received valid =
     ''Could not recognize the requested Indexer or Experimenter (received '' @ received @
     '').     When using IndexedPiece.get_data(), please use one of the following short- or long-format     strings to identify the desired Indexer or Experimenter:     '' @
     valid @ ''.''"

definition SUPERFLUOUS_OR_INSUFFICIENT_ARGUMENTS :: "string \<Rightarrow> string" where
  "SUPERFLUOUS_OR_INSUFFICIENT_ARGUMENTS which =
     ''You made improper use of the settings and/or data     arguments. Please refer to the '' @
     which @
     '' documentation to see what is required by the Indexer or     Experimenter requested.''"

subsection \<open>Calling a handler\<close>

text \<open>
  Python's binding of the arguments of a call to the parameters of a function: the
  positional arguments go to the first parameters; a keyword argument must name a
  parameter that has no value yet; a parameter with no default must get a value. Each
  violation is a \<open>TypeError\<close>. A parameter is its name and whether it is required.
\<close>

definition bind_args ::
  "(string \<times> bool) list \<Rightarrow> obj list \<Rightarrow> (string \<times> obj) list \<Rightarrow> error + (string \<times> obj) list" where
  "bind_args params args kwargs =
     (if length params < length args
      then Inl (TypeError ''too many positional arguments'')
      else let bound = zip (map fst params) args
           in if list_ex (\<lambda>(k, v). k \<notin> set (map fst params)) kwargs
              then Inl (TypeError ''unexpected keyword argument'')
              else if list_ex (\<lambda>(k, v). k \<in> set (map fst bound)) kwargs
              then Inl (TypeError ''multiple values for argument'')
              else if list_ex (\<lambda>(k, required). required \<and> k \<notin> set (map fst (bound @ kwargs))) params
              then Inl (TypeError ''missing required positional argument'')
              else Inr (bound @ kwargs))"

text \<open>The value of a parameter after binding; every default in these methods is \<open>None\<close>.\<close>

definition arg :: "(string \<times> obj) list \<Rightarrow> string \<Rightarrow> obj" where
  "arg bound k = (case map_of bound k of None \<Rightarrow> Val PNone | Some v \<Rightarrow> v)"

text \<open>The parameters of each method after \<open>self\<close>.\<close>

definition parameters :: "bound_method \<Rightarrow> (string \<times> bool) list" where
  "parameters m =
     (case m of
        M_get_active_voices \<Rightarrow> [(''data'', False), (''settings'', False)]
      | M_get_dissonance \<Rightarrow> []
      | M_get_fermata \<Rightarrow> []
      | M_get_horizontal_interval \<Rightarrow> [(''settings'', False)]
      | M_get_vertical_interval \<Rightarrow> [(''settings'', False)]
      | M_get_duration \<Rightarrow> [(''data'', False)]
      | M_get_measure \<Rightarrow> []
      | M_get_beat_strength \<Rightarrow> []
      | M_get_ngram \<Rightarrow> [(''data'', True), (''settings'', False)]
      | M_get_multistop \<Rightarrow> []
      | M_get_noterest \<Rightarrow> [])"

definition frame_result :: "pyval frame action \<Rightarrow> obj action" where
  "frame_result m = bindA m (\<lambda>df. returnA (Frame df))"

definition method_body :: "library \<Rightarrow> bound_method \<Rightarrow> (string \<times> obj) list \<Rightarrow> obj action" where
  "method_body L m bound =
     (case m of
        M_get_active_voices \<Rightarrow> frame_result (get_active_voices L (arg bound ''data'') (arg bound ''settings''))
      | M_get_dissonance \<Rightarrow> frame_result (get_dissonance L)
      | M_get_fermata \<Rightarrow> frame_result (get_fermata L)
      | M_get_horizontal_interval \<Rightarrow> frame_result (get_horizontal_interval L (arg bound ''settings''))
      | M_get_vertical_interval \<Rightarrow> frame_result (get_vertical_interval L (arg bound ''settings''))
      | M_get_duration \<Rightarrow> frame_result (get_duration L (arg bound ''data''))
      | M_get_measure \<Rightarrow> frame_result (get_measure L)
      | M_get_beat_strength \<Rightarrow> frame_result (get_beat_strength L)
      | M_get_ngram \<Rightarrow> frame_result (get_ngram L (arg bound ''data'') (arg bound ''settings''))
      | M_get_multistop \<Rightarrow> frame_result (get_multistop L)
      | M_get_noterest \<Rightarrow> frame_result (get_noterest L))"

text \<open>
  The call \<open>self._mkd[analyzer_cls](...)\<close> and the \<open>run\<close> that follows for an analyzer
  object. A table returned by a method has no attribute \<open>run\<close>.
\<close>

definition call :: "library \<Rightarrow> handler \<Rightarrow> obj list \<Rightarrow> (string \<times> obj) list \<Rightarrow> obj action" where
  "call L h args kwargs =
     (case h of
        Method m \<Rightarrow> bindA (liftE (bind_args (parameters m) args kwargs)) (method_body L m)
      | Class c \<Rightarrow> recorded (class_module c) (run_class L c args kwargs))"

subsection \<open>get_data()\<close>

definition get_data :: "library \<Rightarrow> ident \<Rightarrow> obj \<Rightarrow> pyval \<Rightarrow> obj action" where
  "get_data L analyzer_cls data setts p =
     (case mkd_lookup analyzer_cls of
        None \<Rightarrow> (Inl (KeyError (NOT_AN_ANALYZER (str_ident analyzer_cls)
                                   (''['' @ join '', '' (map repr_str mkd_keys_str) @ '']''))), p)
      | Some h \<Rightarrow>
          (let args_dict = (if setts \<noteq> PNone then [(''settings'', Val setts)] else []);
               args = (if data = Val PNone then [] else [data])
           in case call L h args args_dict p of
                (Inl (TypeError msg), p') \<Rightarrow>
                  (Inl (RuntimeWarning (SUPERFLUOUS_OR_INSUFFICIENT_ARGUMENTS (str_handler p' h))), p')
              | outcome \<Rightarrow> outcome))"

section \<open>The pieces of a WorkflowManager\<close>

text \<open>
  The pieces that \<open>workflow.py\<close> makes and calls are those of \<open>indexed_piece.py\<close>.
  \<open>IndexedPiece(each_val)\<close> makes a piece with no score. In
  \<open>piece.get_data(chain, ...)\<close> the list of analyzer classes is bound to the parameter
  \<open>analyzer_cls\<close> and the further positional arguments to \<open>data\<close> and \<open>settings\<close>; a
  call with more arguments than parameters is a \<open>TypeError\<close> of the call.
\<close>

definition positional :: "pyval list \<Rightarrow> nat \<Rightarrow> pyval" where
  "positional args i = (if i < length args then args ! i else PNone)"

definition IndexedPiece_get_data ::
  "library \<Rightarrow> IndexedPiece \<Rightarrow> analyzer list \<Rightarrow> pyval list \<Rightarrow> (error + pyval) \<times> IndexedPiece" where
  "IndexedPiece_get_data L piece chain args =
     (if 2 < length args
      then (Inl (TypeError ''get_data() takes from 2 to 4 positional arguments''), piece)
      else (case get_data L (IList (map ICls chain)) (Val (positional args 0)) (positional args 1) piece of
              (Inl e, piece') \<Rightarrow> (Inl e, piece')
            | (Inr r, piece') \<Rightarrow> (Inr (as_value L r), piece')))"

definition IndexedPiece_collaborators :: "library \<Rightarrow> IndexedPiece collaborators" where
  "IndexedPiece_collaborators L =
     \<lparr>piece_new = (\<lambda>pathname. new_IndexedPiece pathname None),
      piece_get_data = IndexedPiece_get_data L,
      piece_metadata = (\<lambda>piece field. metadata piece (PStr field)),
      key_to_tuple = interval_key_to_tuple L,
      aggregated_get_data = AggregatedPieces_get_data L\<rparr>"

section \<open>A stand-in for what the files do not contain, and a small piece\<close>

text \<open>
  A piece of one part, with the note C4 at offset 0 and a rest at offset 1, for
  statements about concrete pieces.
\<close>

definition example_part :: part where
  "example_part = \<lparr>events = [(0, Note (Pitch ''C4'' 60) None), (1, Rest None)], highestTime = 2\<rparr>"

definition example_piece :: IndexedPiece where
  "example_piece = new_IndexedPiece ''example.xml'' (Some [example_part])"

text \<open>
  A concrete instance of the library. Each analyzer answers with a fixed label: a table
  of the shape of the table it is given, every cell replaced by the label, or a table
  of one cell when it is given anything else. The constructor of the base class keeps
  the score it is given, and \<open>make_return\<close> puts the name of the indexer above the
  labels. The pitch constructor knows the names C4 and G4. The aggregation of the
  frequencies of several pieces answers with a fixed series.
\<close>

definition one_cell :: "string \<Rightarrow> pyval frame" where
  "one_cell s = \<lparr>columns = [''0''], level1 = None, rows = [(0, [Some (PStr s)])]\<rparr>"

fun relabel :: "string \<Rightarrow> obj \<Rightarrow> pyval frame" where
  "relabel s (Frame df) =
     df\<lparr>rows := map (\<lambda>(off, cells). (off, map (map_option (\<lambda>v. PStr s)) cells)) (rows df)\<rparr>"
| "relabel s _ = one_cell s"

definition mock_library :: library where
  "mock_library =
     \<lparr>music21_Pitch = (\<lambda>name. Pitch name (if name = ''C4'' then 60 else if name = ''G4'' then 67 else 0)),
      run_NoteRestIndexer = (\<lambda>df. Inr (one_cell ''C4'')),
      run_MultiStopIndexer = (\<lambda>df. Inr (one_cell ''C4'')),
      Indexer_init = (\<lambda>score. Inr score),
      make_return = (\<lambda>labels result. Inr
         \<lparr>columns = map (\<lambda>label. ''meter.DurationIndexer'') labels, level1 = Some labels,
          rows = map (\<lambda>(off, cells). (off, map (map_option PFloat) cells)) (rows result)\<rparr>),
      run_ActiveVoicesIndexer = (\<lambda>data setts. Inr (relabel ''1'' data)),
      ActiveVoicesIndexer_default_settings = [(''attacked'', PBool False), (''show_all'', PBool False)],
      run_NoteBeatStrengthIndexer = (\<lambda>df. Inr (one_cell ''1.0'')),
      run_FermataIndexer = (\<lambda>df. Inr (one_cell ''Fermata'')),
      run_IntervalIndexer = (\<lambda>df setts. Inr (relabel ''P8'' (Frame df))),
      run_HorizontalIntervalIndexer = (\<lambda>df setts. Inr (relabel ''M2'' (Frame df))),
      run_IntervalReindexer = (\<lambda>df setts. Inr (relabel ''8'' (Frame df))),
      run_DissonanceIndexer = (\<lambda>dfs. Inr (one_cell ''-'')),
      run_MeasureIndexer = (\<lambda>df. Inr (one_cell ''1'')),
      run_NGramIndexer = (\<lambda>data setts. Inr (relabel ''3 1 3'' data)),
      run_class = (\<lambda>cls args kwargs. Inr (Val PNone)),
      interval_key_to_tuple = (\<lambda>combo. Inr (0, 1)),
      AggregatedPieces_get_data = (\<lambda>pieces chain args. Inr (PSeries [(''5'', 2), (''3'', 3), (''8'', 1)])),
      as_value = (\<lambda>r. case r of Val v \<Rightarrow> v | _ \<Rightarrow> PNone)\<rparr>"

text \<open>A table that no analyzer produced from the piece, to pass as \<open>data\<close>.\<close>

definition example_data :: "pyval frame" where
  "example_data = \<lparr>columns = [''x''], level1 = None, rows = [(7, [Some (PStr ''a'')])]\<rparr>"

text \<open>
  Settings that ask for the intervals as they are cached (directed, with quality,
  compound), attached to the first note of each pair.
\<close>

definition complete_false :: pyval where
  "complete_false = PDict [(''directed'', PBool True), (''quality'', PBool True),
      (''simple or compound'', PStr ''compound''), (''horiz_attach_later'', PBool False)]"

text \<open>The manager that \<open>__init__\<close> builds from three pathnames, on the pieces above.\<close>

definition example_manager :: "IndexedPiece WorkflowManager" where
  "example_manager =
     init (IndexedPiece_collaborators mock_library) [Pathname ''a.xml'', Pathname ''b.xml'', Pathname ''c.xml'']"

section \<open>Properties of the WorkflowManager\<close>

subsection \<open>settings()\<close>

lemma settings_index_set:
  "0 \<le> i \<Longrightarrow> i < int (length (wm_settings wm)) \<Longrightarrow> f \<in> dom (wm_settings wm ! nat i) \<Longrightarrow> v \<noteq> PNone \<Longrightarrow>
   settings_index wm i f v =
     (Inr PNone, wm\<lparr>wm_settings := (wm_settings wm)[nat i := (wm_settings wm ! nat i)(f \<mapsto> v)]\<rparr>)"
  by (simp add: settings_index_def)

lemma settings_loop_foldl:
  assumes g: "g = (\<lambda>d. d(f \<mapsto> v))"
  shows "list_all (\<lambda>i. i < length (wm_settings wm) \<and> f \<in> dom (wm_settings wm ! i)) js \<Longrightarrow> v \<noteq> PNone \<Longrightarrow>
   settings_loop wm js f v =
     (Inr PNone, wm\<lparr>wm_settings := foldl (\<lambda>ds i. ds[i := g (ds ! i)]) (wm_settings wm) js\<rparr>)"
proof (induction js arbitrary: wm)
  case Nil
  then show ?case by simp
next
  case (Cons j js)
  let ?wm = "wm\<lparr>wm_settings := (wm_settings wm)[j := g (wm_settings wm ! j)]\<rparr>"
  from Cons.prems have j: "j < length (wm_settings wm)" "f \<in> dom (wm_settings wm ! j)"
    by simp_all
  have step: "settings_index wm (int j) f v = (Inr PNone, ?wm)"
    using settings_index_set [of "int j" wm f v] j Cons.prems(2) by (simp add: g)
  have "list_all (\<lambda>i. i < length (wm_settings ?wm) \<and> f \<in> dom (wm_settings ?wm ! i)) js"
    using Cons.prems(1) j by (auto simp: list_all_iff nth_list_update g)
  from Cons.IH [OF this Cons.prems(2)] step show ?case by simp
qed

lemma foldl_update_prefix:
  "k \<le> length ds \<Longrightarrow>
   foldl (\<lambda>ds i. ds[i := g (ds ! i)]) ds [0 ..< k] = map g (take k ds) @ drop k ds"
proof (induction k)
  case 0
  then show ?case by simp
next
  case (Suc k)
  then have k: "k < length ds" by simp
  have "(map g (take k ds) @ drop k ds)[k := g ((map g (take k ds) @ drop k ds) ! k)]
        = map g (take (Suc k) ds) @ drop (Suc k) ds"
    using k by (simp add: list_update_append nth_append take_Suc_conv_app_nth
        Cons_nth_drop_Suc [symmetric] min_def)
  with Suc show ?case by simp
qed

lemma foldl_update_all:
  "foldl (\<lambda>ds i. ds[i := g (ds ! i)]) ds [0 ..< length ds] = map g ds"
  using foldl_update_prefix [of "length ds" ds g] by simp

lemma settings_all:
  assumes "list_all (\<lambda>d. f \<in> dom d) (wm_settings wm)" and "v \<noteq> PNone"
  shows "settings wm None f v = (Inr PNone, wm\<lparr>wm_settings := map (\<lambda>d. d(f \<mapsto> v)) (wm_settings wm)\<rparr>)"
proof -
  have "list_all (\<lambda>i. i < length (wm_settings wm) \<and> f \<in> dom (wm_settings wm ! i)) [0 ..< length (wm_settings wm)]"
    using assms(1) by (auto simp: list_all_iff)
  from settings_loop_foldl [OF refl this assms(2)] assms(2)
    foldl_update_all [where g = "\<lambda>d. d(f \<mapsto> v)" and ds = "wm_settings wm"]
  show ?thesis
    by (simp add: settings_def)
qed

lemma dom_init_piece_sett:
  "dom init_piece_sett = {''offset interval'', ''voice combinations'', ''filter repeats'',
      ''interval quality'', ''simple intervals''}"
  by (auto simp: init_piece_sett_def split: if_splits)

lemma init_invariant: "length (wm_settings (init C vals)) = len (init C vals)"
  by (simp add: init_def len_def Let_def)

lemma settings_none_none:
  "settings wm None g PNone = (Inl (ValueError ''If \"index\" is None, \"value\" must not be None.''), wm)"
  by (simp add: settings_def)

lemma settings_out_of_range:
  "\<not> (0 \<le> j \<and> j < int (length (wm_settings wm))) \<Longrightarrow>
   settings wm (Some j) g u =
     (Inl (IndexError (''Invalid inex for this WorkflowManager ('' @ str_int j @ '')'')), wm)"
  by (simp add: settings_def settings_index_def)

lemma settings_unknown:
  "0 \<le> k \<Longrightarrow> k < int (length (wm_settings wm)) \<Longrightarrow> g \<notin> dom (wm_settings wm ! nat k) \<Longrightarrow>
   settings wm (Some k) g u = (Inl (AttributeError (''Invalid setting: '' @ g)), wm)"
  by (simp add: settings_def settings_index_def)

lemma settings_get:
  "0 \<le> i \<Longrightarrow> i < int (length (wm_settings wm)) \<Longrightarrow> (wm_settings wm ! nat i) f = Some v \<Longrightarrow>
   settings wm (Some i) f PNone = (Inr v, wm)"
  by (auto simp: settings_def settings_index_def)

lemma settings_all_unknown:
  assumes "u \<noteq> PNone" and "wm_settings wm \<noteq> []" and "g \<notin> dom (wm_settings wm ! 0)"
  shows "settings wm None g u = (Inl (AttributeError (''Invalid setting: '' @ g)), wm)"
proof -
  have "[0 ..< length (wm_settings wm)] = 0 # [1 ..< length (wm_settings wm)]"
    using assms(2) by (simp add: upt_conv_Cons)
  moreover have "settings_index wm (int 0) g u = (Inl (AttributeError (''Invalid setting: '' @ g)), wm)"
    using assms(2,3) by (simp add: settings_index_def)
  ultimately show ?thesis using assms(1) by (simp add: settings_def)
qed

lemma lookup_list: "mkd_lookup (IList xs) = None"
  by (simp add: mkd_lookup_def mkd_def)

lemma get_data_list:
  "get_data L (IList xs) d s p =
     (Inl (KeyError (NOT_AN_ANALYZER (str_ident (IList xs))
                       (''['' @ join '', '' (map repr_str mkd_keys_str) @ '']''))), p)"
  by (simp add: get_data_def lookup_list)

lemma piece_get_data_list:
  "length args \<le> 2 \<Longrightarrow>
   piece_get_data (IndexedPiece_collaborators L) piece chain args =
     (Inl (KeyError (NOT_AN_ANALYZER (str_ident (IList (map ICls chain)))
                       (''['' @ join '', '' (map repr_str mkd_keys_str) @ '']''))), piece)"
  by (simp add: IndexedPiece_collaborators_def IndexedPiece_get_data_def get_data_list)

lemma example_manager:
  "example_manager =
     \<lparr>wm_data = [new_IndexedPiece ''a.xml'' None, new_IndexedPiece ''b.xml'' None,
                 new_IndexedPiece ''c.xml'' None],
      wm_result = PNone, wm_settings = [init_piece_sett, init_piece_sett, init_piece_sett]\<rparr>"
  by (simp add: example_manager_def init_def IndexedPiece_collaborators_def Let_def numeral_3_eq_3)

lemma example_manager_invariant: "length (wm_settings example_manager) = len example_manager"
  unfolding example_manager_def by (rule init_invariant)

lemma str_int_minus_1: "str_int (- 1) = ''-1''"
  by code_simp

text \<open>
  Claim C8. For a manager that holds \<open>n\<close> pieces (\<open>self._settings\<close> has one dict per
  piece, as \<open>__init__\<close> leaves it): \<open>settings(None, f, v)\<close> with \<open>v\<close> not \<open>None\<close>, for a
  field \<open>f\<close> of the settings, returns \<open>None\<close> and sets \<open>f\<close> to \<open>v\<close> for every piece, and
  then \<open>settings(i, f)\<close> returns \<open>v\<close> for every \<open>0 \<le> i < n\<close>; \<open>settings(j, g, u)\<close> with
  \<open>j\<close> outside \<open>0 \<le> j < n\<close> raises \<open>IndexError\<close>; \<open>settings(None, g, None)\<close> raises
  \<open>ValueError\<close>; and a field \<open>g\<close> that is not a setting raises \<open>AttributeError\<close> with the
  message \<open>Invalid setting: g\<close>, both for a valid index \<open>k\<close> and for \<open>settings(None, g, u)\<close>
  on a manager with at least one piece. Every call that raises leaves the manager
  unchanged.
\<close>

theorem settings_contract:
  fixes wm :: "'p WorkflowManager"
  assumes inv: "length (wm_settings wm) = len wm"
  shows
    "(v \<noteq> PNone \<and> list_all (\<lambda>d. f \<in> dom d) (wm_settings wm) \<longrightarrow>
        settings wm None f v = (Inr PNone, wm\<lparr>wm_settings := map (\<lambda>d. d(f \<mapsto> v)) (wm_settings wm)\<rparr>) \<and>
        (\<forall>i. 0 \<le> i \<and> i < int (len wm) \<longrightarrow>
           settings (snd (settings wm None f v)) (Some i) f PNone = (Inr v, snd (settings wm None f v)))) \<and>
     (\<not> (0 \<le> j \<and> j < int (len wm)) \<longrightarrow>
        settings wm (Some j) g u =
          (Inl (IndexError (''Invalid inex for this WorkflowManager ('' @ str_int j @ '')'')), wm)) \<and>
     settings wm None g PNone =
       (Inl (ValueError ''If \"index\" is None, \"value\" must not be None.''), wm) \<and>
     (0 \<le> k \<and> k < int (len wm) \<and> g \<notin> dom (wm_settings wm ! nat k) \<longrightarrow>
        settings wm (Some k) g u = (Inl (AttributeError (''Invalid setting: '' @ g)), wm)) \<and>
     (u \<noteq> PNone \<and> 0 < len wm \<and> g \<notin> dom (wm_settings wm ! 0) \<longrightarrow>
        settings wm None g u = (Inl (AttributeError (''Invalid setting: '' @ g)), wm))"
proof (intro conjI impI)
  assume a: "v \<noteq> PNone \<and> list_all (\<lambda>d. f \<in> dom d) (wm_settings wm)"
  then show all: "settings wm None f v =
      (Inr PNone, wm\<lparr>wm_settings := map (\<lambda>d. d(f \<mapsto> v)) (wm_settings wm)\<rparr>)"
    by (simp add: settings_all)
  show "\<forall>i. 0 \<le> i \<and> i < int (len wm) \<longrightarrow>
     settings (snd (settings wm None f v)) (Some i) f PNone = (Inr v, snd (settings wm None f v))"
  proof (intro allI impI)
    fix i :: int
    assume i: "0 \<le> i \<and> i < int (len wm)"
    let ?wm = "wm\<lparr>wm_settings := map (\<lambda>d. d(f \<mapsto> v)) (wm_settings wm)\<rparr>"
    have "nat i < length (wm_settings wm)"
      using i inv by (auto simp: nat_less_iff)
    then have "settings ?wm (Some i) f PNone = (Inr v, ?wm)"
      using i inv by (intro settings_get) simp_all
    then show "settings (snd (settings wm None f v)) (Some i) f PNone
        = (Inr v, snd (settings wm None f v))"
      by (simp add: all)
  qed
next
  assume "\<not> (0 \<le> j \<and> j < int (len wm))"
  then show "settings wm (Some j) g u =
      (Inl (IndexError (''Invalid inex for this WorkflowManager ('' @ str_int j @ '')'')), wm)"
    using inv by (intro settings_out_of_range) simp
next
  show "settings wm None g PNone =
      (Inl (ValueError ''If \"index\" is None, \"value\" must not be None.''), wm)"
    by (rule settings_none_none)
next
  assume "0 \<le> k \<and> k < int (len wm) \<and> g \<notin> dom (wm_settings wm ! nat k)"
  then show "settings wm (Some k) g u = (Inl (AttributeError (''Invalid setting: '' @ g)), wm)"
    using inv by (intro settings_unknown) simp_all
next
  assume "u \<noteq> PNone \<and> 0 < len wm \<and> g \<notin> dom (wm_settings wm ! 0)"
  then show "settings wm None g u = (Inl (AttributeError (''Invalid setting: '' @ g)), wm)"
    using inv by (intro settings_all_unknown) auto
qed

text \<open>
  The scenario of the specification, on the manager built from three pathnames: the
  field \<open>filter repeats\<close> is set to \<open>True\<close> for all pieces, read back at index 1, and
  refused at index \<open>-1\<close>; \<open>drink wine\<close> is not a setting.
\<close>

theorem settings_contract_witness:
  "len example_manager = 3 \<and>
   settings example_manager None ''filter repeats'' (PBool True) =
     (Inr PNone,
      example_manager\<lparr>wm_settings := replicate 3 (init_piece_sett(''filter repeats'' \<mapsto> PBool True))\<rparr>) \<and>
   settings (example_manager\<lparr>wm_settings := replicate 3 (init_piece_sett(''filter repeats'' \<mapsto> PBool True))\<rparr>)
       (Some 1) ''filter repeats'' PNone =
     (Inr (PBool True),
      example_manager\<lparr>wm_settings := replicate 3 (init_piece_sett(''filter repeats'' \<mapsto> PBool True))\<rparr>) \<and>
   settings example_manager (Some (- 1)) ''filter repeats'' PNone =
     (Inl (IndexError ''Invalid inex for this WorkflowManager (-1)''), example_manager) \<and>
   settings example_manager None ''drink wine'' PNone =
     (Inl (ValueError ''If \"index\" is None, \"value\" must not be None.''), example_manager) \<and>
   settings example_manager (Some 1) ''drink wine'' (PBool True) =
     (Inl (AttributeError ''Invalid setting: drink wine''), example_manager) \<and>
   settings example_manager None ''drink wine'' (PBool True) =
     (Inl (AttributeError ''Invalid setting: drink wine''), example_manager)"
proof -
  let ?wm = "example_manager"
  let ?wm1 = "example_manager\<lparr>wm_settings := replicate 3 (init_piece_sett(''filter repeats'' \<mapsto> PBool True))\<rparr>"
  note c = settings_contract [OF example_manager_invariant,
      of "PBool True" "''filter repeats''" "- 1" "''drink wine''" "PBool True" 1]
  have n: "len ?wm = 3"
    by (simp add: example_manager len_def)
  have known: "PBool True \<noteq> PNone \<and> list_all (\<lambda>d. ''filter repeats'' \<in> dom d) (wm_settings ?wm)"
    by (simp add: example_manager dom_init_piece_sett)
  have wm1: "?wm\<lparr>wm_settings := map (\<lambda>d. d(''filter repeats'' \<mapsto> PBool True)) (wm_settings ?wm)\<rparr> = ?wm1"
    by (simp add: example_manager numeral_3_eq_3)
  note first = mp [OF c [THEN conjunct1] known]
  have a: "settings ?wm None ''filter repeats'' (PBool True) = (Inr PNone, ?wm1)"
    using first [THEN conjunct1] by (simp only: wm1)
  have "0 \<le> (1::int) \<and> 1 < int (len ?wm)"
    by (simp add: n)
  from first [THEN conjunct2, rule_format, OF this]
  have b: "settings ?wm1 (Some 1) ''filter repeats'' PNone = (Inr (PBool True), ?wm1)"
    by (simp only: a snd_conv)
  have "\<not> (0 \<le> (- 1 :: int) \<and> - 1 < int (len ?wm))"
    by simp
  from mp [OF c [THEN conjunct2, THEN conjunct1] this]
  have d: "settings ?wm (Some (- 1)) ''filter repeats'' PNone =
      (Inl (IndexError ''Invalid inex for this WorkflowManager (-1)''), ?wm)"
    by (simp add: settings_def settings_index_def str_int_minus_1)
  note e = c [THEN conjunct2, THEN conjunct2, THEN conjunct1]
  have "0 \<le> (1::int) \<and> 1 < int (len ?wm) \<and> ''drink wine'' \<notin> dom (wm_settings ?wm ! nat 1)"
    by (simp add: n) (simp add: example_manager dom_init_piece_sett)
  from mp [OF c [THEN conjunct2, THEN conjunct2, THEN conjunct2, THEN conjunct1] this]
  have f: "settings ?wm (Some 1) ''drink wine'' (PBool True) =
      (Inl (AttributeError ''Invalid setting: drink wine''), ?wm)"
    by simp
  have "PBool True \<noteq> PNone \<and> 0 < len ?wm \<and> ''drink wine'' \<notin> dom (wm_settings ?wm ! 0)"
    by (simp add: n) (simp add: example_manager dom_init_piece_sett)
  from mp [OF c [THEN conjunct2, THEN conjunct2, THEN conjunct2, THEN conjunct2] this]
  have g: "settings ?wm None ''drink wine'' (PBool True) =
      (Inl (AttributeError ''Invalid setting: drink wine''), ?wm)"
    by simp
  show ?thesis
    by (intro conjI n a b d e f g)
qed

subsection \<open>run(): the dispatch on the instruction\<close>

lemma pref0: "prefix (possible_instructions ! 0) ''all-combinations intervals''"
  by (simp add: possible_instructions_def)

lemma minlen: "min_list (map length possible_instructions) = 26"
  by (simp add: possible_instructions_def)





lemma not_sc: "\<not> sublist '' for SuperCollider'' ''all-combinations intervals''"
proof
  assume "sublist '' for SuperCollider'' ''all-combinations intervals''"
  then have "set '' for SuperCollider'' \<subseteq> set ''all-combinations intervals''"
    by (rule set_mono_sublist)
  then show False by simp
qed

lemma sc: "sublist '' for SuperCollider'' ''all-combinations intervals for SuperCollider''"
  using sublist_appendI [of "'' for SuperCollider''" "''all-combinations intervals''" "[]"]
  by simp

lemma intervs_loop_raises:
  "pieces \<noteq> [] \<Longrightarrow>
   intervs_loop (IndexedPiece_collaborators L) setts pieces =
     (Inl (KeyError (NOT_AN_ANALYZER (str_ident (IList [ICls NoteRestIndexer, ICls IntervalIndexer]))
                       (''['' @ join '', '' (map repr_str mkd_keys_str) @ '']''))), pieces)"
  by (cases pieces) (simp_all add: piece_get_data_list)

lemma intervs_raises:
  "pieces \<noteq> [] \<Longrightarrow>
   intervs (IndexedPiece_collaborators L) pieces setts =
     (Inl (KeyError (NOT_AN_ANALYZER (str_ident (IList [ICls NoteRestIndexer, ICls IntervalIndexer]))
                       (''['' @ join '', '' (map repr_str mkd_keys_str) @ '']''))), pieces)"
  by (simp add: intervs_def intervs_loop_raises)

lemma load_pieces_raises:
  "pieces \<noteq> [] \<Longrightarrow>
   load_pieces (IndexedPiece_collaborators L) pieces =
     (Inl (KeyError (NOT_AN_ANALYZER (str_ident (IList [ICls NoteRestIndexer]))
                       (''['' @ join '', '' (map repr_str mkd_keys_str) @ '']''))), pieces)"
  by (cases pieces) (simp_all add: piece_get_data_list)

lemma example_manager_data: "wm_data example_manager \<noteq> []"
  by (simp add: example_manager)



subsection \<open>run() and load() on the pieces of indexed_piece.py\<close>

lemma run_intervs:
  "run C wm ''all-combinations intervals'' setts =
     (case intervs C (wm_data wm) setts of
        (Inl e, pieces) \<Rightarrow> (Inl e, wm\<lparr>wm_data := pieces\<rparr>)
      | (Inr post, pieces) \<Rightarrow> (Inr post, wm\<lparr>wm_data := pieces, wm_result := post\<rparr>))"
  by (simp add: run_def minlen pref0 not_sc run_finish_def Let_def split: prod.splits sum.splits)

lemma load_raises:
  "wm_data wm \<noteq> [] \<Longrightarrow>
   load (IndexedPiece_collaborators L) wm ''pieces'' =
     (Inl (KeyError (NOT_AN_ANALYZER (str_ident (IList [ICls NoteRestIndexer]))
                       (''['' @ join '', '' (map repr_str mkd_keys_str) @ '']''))), wm)"
  by (simp add: load_def load_pieces_raises)

lemma run_intervs_raises:
  "wm_data wm \<noteq> [] \<Longrightarrow>
   run (IndexedPiece_collaborators L) wm ''all-combinations intervals'' setts =
     (Inl (KeyError (NOT_AN_ANALYZER (str_ident (IList [ICls NoteRestIndexer, ICls IntervalIndexer]))
                       (''['' @ join '', '' (map repr_str mkd_keys_str) @ '']''))), wm)"
  by (simp add: run_intervs intervs_raises)

text \<open>
  Claim C7, on a manager that holds at least one piece. \<open>load('pieces')\<close> and \<open>_intervs\<close>
  pass \<open>get_data\<close> a list of analyzer classes, which is not a key of the analyzer table
  of the piece: \<open>load('pieces')\<close> raises the \<open>KeyError\<close> of \<open>get_data\<close> at the first piece
  and leaves the manager as it was, and \<open>run('all-combinations intervals')\<close> raises the
  \<open>KeyError\<close> of \<open>get_data\<close>, with the manager unchanged and no result stored, before
  \<open>load('pieces')\<close> as well as after it. So \<open>run\<close> does raise before \<open>load\<close>, and it
  never returns the sorted series of frequencies after it.
\<close>

theorem run_raises_with_and_without_load:
  "wm_data wm \<noteq> [] \<longrightarrow>
     load (IndexedPiece_collaborators L) wm ''pieces'' =
       (Inl (KeyError (NOT_AN_ANALYZER (str_ident (IList [ICls NoteRestIndexer]))
                         (''['' @ join '', '' (map repr_str mkd_keys_str) @ '']''))), wm) \<and>
     run (IndexedPiece_collaborators L) wm ''all-combinations intervals'' setts =
       (Inl (KeyError (NOT_AN_ANALYZER (str_ident (IList [ICls NoteRestIndexer, ICls IntervalIndexer]))
                         (''['' @ join '', '' (map repr_str mkd_keys_str) @ '']''))), wm) \<and>
     run (IndexedPiece_collaborators L) (snd (load (IndexedPiece_collaborators L) wm ''pieces''))
         ''all-combinations intervals'' setts =
       (Inl (KeyError (NOT_AN_ANALYZER (str_ident (IList [ICls NoteRestIndexer, ICls IntervalIndexer]))
                         (''['' @ join '', '' (map repr_str mkd_keys_str) @ '']''))), wm)"
  by (simp add: load_raises run_intervs_raises)

text \<open>The scenario of the specification, on the manager built from three pathnames.\<close>

theorem run_raises_with_and_without_load_witness:
  "len example_manager = 3 \<and>
   load (IndexedPiece_collaborators mock_library) example_manager ''pieces'' =
     (Inl (KeyError (NOT_AN_ANALYZER (str_ident (IList [ICls NoteRestIndexer]))
                       (''['' @ join '', '' (map repr_str mkd_keys_str) @ '']''))), example_manager) \<and>
   run (IndexedPiece_collaborators mock_library) example_manager ''all-combinations intervals'' PNone =
     (Inl (KeyError (NOT_AN_ANALYZER (str_ident (IList [ICls NoteRestIndexer, ICls IntervalIndexer]))
                       (''['' @ join '', '' (map repr_str mkd_keys_str) @ '']''))), example_manager) \<and>
   run (IndexedPiece_collaborators mock_library)
       (snd (load (IndexedPiece_collaborators mock_library) example_manager ''pieces''))
       ''all-combinations intervals'' PNone =
     (Inl (KeyError (NOT_AN_ANALYZER (str_ident (IList [ICls NoteRestIndexer, ICls IntervalIndexer]))
                       (''['' @ join '', '' (map repr_str mkd_keys_str) @ '']''))), example_manager)"
proof -
  have n: "len example_manager = 3"
    by (simp add: example_manager len_def)
  note c = run_raises_with_and_without_load [of example_manager mock_library PNone, THEN mp,
      OF example_manager_data]
  show ?thesis
    by (intro conjI n c [THEN conjunct1] c [THEN conjunct2, THEN conjunct1]
        c [THEN conjunct2, THEN conjunct2])
qed

section \<open>Properties of the IndexedPiece\<close>

lemmas action_defs = bindA_def returnA_def liftE_def recorded_def store_def frame_result_def
lemmas test_defs = bindE_def andE_def orE_def notE_def

subsection \<open>The analyzer table\<close>

lemma lookup_vertical_interval:
  "mkd_lookup (IStr ''vertical_interval'') = Some (Method M_get_vertical_interval)"
  by (simp add: mkd_lookup_def mkd_def)

lemma lookup_horizontal_interval:
  "mkd_lookup (IStr ''horizontal_interval'') = Some (Method M_get_horizontal_interval)"
  by (simp add: mkd_lookup_def mkd_def)

lemma lookup_active_voices:
  "mkd_lookup (IStr ''active_voices'') = Some (Method M_get_active_voices)"
  by (simp add: mkd_lookup_def mkd_def)

lemma lookup_duration:
  "mkd_lookup (IStr ''duration'') = Some (Method M_get_duration)"
  by (simp add: mkd_lookup_def mkd_def)


lemma lookup_noterest:
  "mkd_lookup (IStr ''noterest'') = Some (Method M_get_noterest)"
  by (simp add: mkd_lookup_def mkd_def)

subsection \<open>The voice combiner\<close>

lemma combine_voices_two_voices:
  "combine_voices new_Pitch
     [(0, Note (Pitch ''C4'' 60) None), (1, Rest None), (0, Note (Pitch ''G4'' 67) None), (1, Rest None)]
     [(0, Voice 2), (0, Note (Pitch ''C4'' 60) None), (1, Rest None),
      (0, Voice 2), (0, Note (Pitch ''G4'' 67) None), (1, Rest None)] =
   Inr [(0, Chord (sort_key (\<lambda>p. - ps p) [new_Pitch ''C4'', new_Pitch ''G4'']) None),
        (1, Chord [] None)]"
  by (simp add: combine_voices_def List.map_filter_def concat_axis1_def same_index_def
      positions_def condense_def bindE_def)

text \<open>
  Claim C6, on the offsets where every voice is silent. A part with two voices, C4 and
  G4 at offset 0 and a rest in both at offset 1: \<open>ser\<close> holds the notes and rests of the
  two voices one after the other, \<open>part\<close> holds the two \<open>Voice\<close> objects as well. At
  offset 0 the result is the chord of the two new pitches in descending order, G4 above
  C4 when the pitch constructor gives them their pitch-space numbers 67 and 60; at
  offset 1, where both voices rest, the result is a chord with no pitches and not a
  rest: the function applied to each row always builds a chord, so that
  \<open>_reinsert_rests\<close> never receives a float.
\<close>

theorem combine_voices_all_silent:
  "combine_voices new_Pitch
     [(0, Note (Pitch ''C4'' 60) None), (1, Rest None), (0, Note (Pitch ''G4'' 67) None), (1, Rest None)]
     [(0, Voice 2), (0, Note (Pitch ''C4'' 60) None), (1, Rest None),
      (0, Voice 2), (0, Note (Pitch ''G4'' 67) None), (1, Rest None)] =
   Inr [(0, Chord (sort_key (\<lambda>p. - ps p) [new_Pitch ''C4'', new_Pitch ''G4'']) None),
        (1, Chord [] None)] \<and>
   (new_Pitch ''C4'' = Pitch ''C4'' 60 \<and> new_Pitch ''G4'' = Pitch ''G4'' 67 \<longrightarrow>
    combine_voices new_Pitch
      [(0, Note (Pitch ''C4'' 60) None), (1, Rest None), (0, Note (Pitch ''G4'' 67) None), (1, Rest None)]
      [(0, Voice 2), (0, Note (Pitch ''C4'' 60) None), (1, Rest None),
       (0, Voice 2), (0, Note (Pitch ''G4'' 67) None), (1, Rest None)] =
    Inr [(0, Chord [Pitch ''G4'' 67, Pitch ''C4'' 60] None), (1, Chord [] None)])"
  by (simp add: combine_voices_two_voices)

text \<open>With the pitch constructor of the stand-in.\<close>

theorem combine_voices_all_silent_witness:
  "combine_voices (music21_Pitch mock_library)
     [(0, Note (Pitch ''C4'' 60) None), (1, Rest None), (0, Note (Pitch ''G4'' 67) None), (1, Rest None)]
     [(0, Voice 2), (0, Note (Pitch ''C4'' 60) None), (1, Rest None),
      (0, Voice 2), (0, Note (Pitch ''G4'' 67) None), (1, Rest None)] =
   Inr [(0, Chord [Pitch ''G4'' 67, Pitch ''C4'' 60] None), (1, Chord [] None)]"
proof -
  have "music21_Pitch mock_library ''C4'' = Pitch ''C4'' 60 \<and>
      music21_Pitch mock_library ''G4'' = Pitch ''G4'' 67"
    by (simp add: mock_library_def)
  from combine_voices_all_silent [of "music21_Pitch mock_library", THEN conjunct2, THEN mp, OF this]
  show ?thesis .
qed

subsection \<open>Handlers on a cache that holds their table\<close>

lemma complete_complete_false: "complete_settings (Val complete_false) = Inr True"
  by (simp add: complete_settings_def complete_false_def test_defs in_quality_def)

lemma horizontal_cached_bug:
  "get_data L (IStr ''horizontal_interval'') (Val PNone) complete_false
     (p\<lparr>ip_analyses := a\<lparr>c_horizontal_interval := Some H\<rparr>\<rparr>) =
   (Inr (Frame H), p\<lparr>ip_analyses := a\<lparr>c_horizontal_interval := Some H\<rparr>\<rparr>)"
  by (simp add: get_data_def lookup_horizontal_interval call_def bind_args_def parameters_def
      method_body_def arg_def get_horizontal_interval_def horizontal_interval_cached_def
      action_defs test_defs complete_complete_false)

lemma attach_before_example:
  "attach_before \<lparr>columns = [''0''], level1 = None, rows = [(1, [Some (PStr ''M2'')]), (2, [Some (PStr ''-m3'')])]\<rparr>
   = Inr \<lparr>columns = [''0''], level1 = None, rows = [(0, [Some (PStr ''M2'')]), (1, [Some (PStr ''-m3'')])]\<rparr>"
  by (simp add: attach_before_def column_dropna_def shift_index_def concat_axis1_def same_index_def bindE_def)

lemma vertical_data_as_settings:
  assumes "''directed'' \<notin> set (columns d)"
  shows "get_data L (IStr ''vertical_interval'') (Frame d) PNone
     (p\<lparr>ip_analyses := a\<lparr>c_vertical_interval := Some v\<rparr>\<rparr>) =
   (case run_IntervalReindexer L v (Frame d) of
      Inl (TypeError msg) \<Rightarrow>
        Inl (RuntimeWarning (SUPERFLUOUS_OR_INSUFFICIENT_ARGUMENTS
               (str_handler p (Method M_get_vertical_interval))))
    | Inl e \<Rightarrow> Inl e
    | Inr r \<Rightarrow> Inr (Frame r),
    p\<lparr>ip_analyses := a\<lparr>c_vertical_interval := Some v\<rparr>,
      ip_probe := ip_probe p @ [''interval.IntervalReindexer'']\<rparr>)"
  using assms
  by (simp add: get_data_def lookup_vertical_interval call_def bind_args_def parameters_def
      method_body_def arg_def get_vertical_interval_def vertical_interval_cached_def
      action_defs test_defs complete_settings_def str_handler_def repr_piece_def
      split: sum.splits error.splits)

lemma active_voices_second_call:
  "get_data L (IStr ''active_voices'') (Val PNone) PNone
     (p\<lparr>ip_analyses := a\<lparr>c_noterest := Some nr, c_active_voices := Some av\<rparr>\<rparr>) =
   (case run_ActiveVoicesIndexer L (Frame nr) (Val PNone) of
      Inl (TypeError msg) \<Rightarrow>
        Inl (RuntimeWarning (SUPERFLUOUS_OR_INSUFFICIENT_ARGUMENTS
               (str_handler p (Method M_get_active_voices))))
    | Inl e \<Rightarrow> Inl e
    | Inr r \<Rightarrow> Inr (Frame r),
    p\<lparr>ip_analyses := a\<lparr>c_noterest := Some nr, c_active_voices := Some av\<rparr>,
      ip_probe := ip_probe p @ [''active_voices.ActiveVoicesIndexer'']\<rparr>)"
  by (simp add: get_data_def lookup_active_voices call_def bind_args_def parameters_def
      method_body_def arg_def get_active_voices_def get_noterest_def
      action_defs test_defs str_handler_def repr_piece_def
      split: sum.splits error.splits)

lemma probe_after_one_request:
  "ip_probe (snd (get_data mock_library (IStr ''active_voices'') (Val PNone) PNone example_piece)) =
     [''noterest.NoteRestIndexer'', ''active_voices.ActiveVoicesIndexer'']"
  by code_simp

lemma probe_after_two_requests:
  "ip_probe (snd (get_data mock_library (IStr ''active_voices'') (Val PNone) PNone
      (snd (get_data mock_library (IStr ''active_voices'') (Val PNone) PNone example_piece)))) =
     [''noterest.NoteRestIndexer'', ''active_voices.ActiveVoicesIndexer'', ''active_voices.ActiveVoicesIndexer'']"
  by code_simp

subsection \<open>A data argument for a handler that takes none\<close>

lemma no_parameters_with_data:
  assumes k: "mkd_lookup k = Some (Method m)" and m: "parameters m = []" and d: "d \<noteq> Val PNone"
  shows "get_data L k d s p =
     (Inl (RuntimeWarning (SUPERFLUOUS_OR_INSUFFICIENT_ARGUMENTS (str_handler p (Method m)))), p)"
  using d by (simp add: get_data_def k call_def bind_args_def m action_defs)

lemma lookup_beat_strength:
  "mkd_lookup (IStr ''beat_strength'') = Some (Method M_get_beat_strength)"
  by (simp add: mkd_lookup_def mkd_def)

text \<open>
  Claim C3, on the analyzers whose handler has no parameter for data. The handlers of
  \<open>noterest\<close>, \<open>multistop\<close>, \<open>beat_strength\<close>, \<open>fermata\<close>, \<open>dissonance\<close> and \<open>measure\<close>
  cache their result and take no argument. A request for one of them with a \<open>data\<close>
  argument computes nothing from it: the call of the handler with one positional argument
  is a \<open>TypeError\<close>, which \<open>get_data\<close> turns into its \<open>RuntimeWarning\<close>; the piece is left
  as it was.
\<close>

theorem data_for_caching_handler_raises:
  "mkd_lookup k = Some (Method m) \<and> parameters m = [] \<and> d \<noteq> Val PNone \<longrightarrow>
   get_data L k d s p =
     (Inl (RuntimeWarning (SUPERFLUOUS_OR_INSUFFICIENT_ARGUMENTS (str_handler p (Method m)))), p)"
  by (simp add: no_parameters_with_data)

text \<open>On the small piece, for the notes and rests and for the beat strengths.\<close>

theorem data_for_caching_handler_raises_witness:
  "get_data mock_library (IStr ''noterest'') (Frame example_data) PNone example_piece =
     (Inl (RuntimeWarning (SUPERFLUOUS_OR_INSUFFICIENT_ARGUMENTS
             (str_handler example_piece (Method M_get_noterest)))), example_piece) \<and>
   get_data mock_library (IStr ''beat_strength'') (Frame example_data) PNone example_piece =
     (Inl (RuntimeWarning (SUPERFLUOUS_OR_INSUFFICIENT_ARGUMENTS
             (str_handler example_piece (Method M_get_beat_strength)))), example_piece) \<and>
   fst (get_data mock_library (IStr ''noterest'') (Val PNone) PNone example_piece) =
     Inr (Frame (one_cell ''C4''))"
proof -
  have "mkd_lookup (IStr ''noterest'') = Some (Method M_get_noterest) \<and>
      parameters M_get_noterest = [] \<and> Frame example_data \<noteq> Val PNone"
    by (simp add: lookup_noterest parameters_def)
  note a = data_for_caching_handler_raises [THEN mp, OF this]
  have "mkd_lookup (IStr ''beat_strength'') = Some (Method M_get_beat_strength) \<and>
      parameters M_get_beat_strength = [] \<and> Frame example_data \<noteq> Val PNone"
    by (simp add: lookup_beat_strength parameters_def)
  note b = data_for_caching_handler_raises [THEN mp, OF this]
  have c: "fst (get_data mock_library (IStr ''noterest'') (Val PNone) PNone example_piece) =
     Inr (Frame (one_cell ''C4''))"
    by code_simp
  show ?thesis
    by (intro conjI a b c)
qed

subsection \<open>get_data() takes one analyzer\<close>






subsection \<open>A data argument for a handler that takes settings only\<close>

lemma vertical_settings_as_data:
  assumes "complete_settings (Val s) = Inr True" and "s \<noteq> PNone"
  shows "get_data L (IStr ''vertical_interval'') (Val s) PNone
     (p\<lparr>ip_analyses := a\<lparr>c_vertical_interval := Some v\<rparr>\<rparr>) =
   (Inr (Frame v), p\<lparr>ip_analyses := a\<lparr>c_vertical_interval := Some v\<rparr>\<rparr>)"
  using assms
  by (simp add: get_data_def lookup_vertical_interval call_def bind_args_def parameters_def
      method_body_def arg_def get_vertical_interval_def vertical_interval_cached_def
      action_defs test_defs)

text \<open>
  Claim C5, on the wrong combination of settings and data. \<open>_get_vertical_interval\<close>
  has the one parameter \<open>settings\<close>, so that a \<open>data\<close> argument and no settings is a wrong
  combination. \<open>get_data\<close> passes \<open>data\<close> as the positional argument, which binds it to
  \<open>settings\<close>, and no error is raised: for a table, the result is what the
  \<open>IntervalReindexer\<close> makes of the cached intervals with the table as its settings; for
  a dict that asks for directed, compound intervals with quality, the result is the
  cached table of intervals.
\<close>

theorem vertical_interval_takes_data_as_settings:
  "(''directed'' \<notin> set (columns d) \<and> run_IntervalReindexer L v (Frame d) = Inr r \<longrightarrow>
    get_data L (IStr ''vertical_interval'') (Frame d) PNone
      (p\<lparr>ip_analyses := a\<lparr>c_vertical_interval := Some v\<rparr>\<rparr>) =
    (Inr (Frame r),
     p\<lparr>ip_analyses := a\<lparr>c_vertical_interval := Some v\<rparr>,
       ip_probe := ip_probe p @ [''interval.IntervalReindexer'']\<rparr>)) \<and>
   (complete_settings (Val s) = Inr True \<and> s \<noteq> PNone \<longrightarrow>
    get_data L (IStr ''vertical_interval'') (Val s) PNone
      (p\<lparr>ip_analyses := a\<lparr>c_vertical_interval := Some v\<rparr>\<rparr>) =
    (Inr (Frame v), p\<lparr>ip_analyses := a\<lparr>c_vertical_interval := Some v\<rparr>\<rparr>))"
  by (simp add: vertical_data_as_settings vertical_settings_as_data)

theorem vertical_interval_takes_data_as_settings_witness:
  "get_data mock_library (IStr ''vertical_interval'') (Frame (one_cell ''x'')) PNone
     (example_piece\<lparr>ip_analyses := no_analyses\<lparr>c_vertical_interval := Some (one_cell ''P8'')\<rparr>\<rparr>) =
   (Inr (Frame (one_cell ''8'')),
    example_piece\<lparr>ip_analyses := no_analyses\<lparr>c_vertical_interval := Some (one_cell ''P8'')\<rparr>,
      ip_probe := ip_probe example_piece @ [''interval.IntervalReindexer'']\<rparr>) \<and>
   get_data mock_library (IStr ''vertical_interval'') (Val complete_false) PNone
     (example_piece\<lparr>ip_analyses := no_analyses\<lparr>c_vertical_interval := Some (one_cell ''P8'')\<rparr>\<rparr>) =
   (Inr (Frame (one_cell ''P8'')),
    example_piece\<lparr>ip_analyses := no_analyses\<lparr>c_vertical_interval := Some (one_cell ''P8'')\<rparr>\<rparr>) \<and>
   fst (get_data mock_library (IStr ''vertical_interval'') (Frame (one_cell ''x'')) PNone example_piece) =
     Inr (Frame (one_cell ''8'')) \<and>
   c_vertical_interval (ip_analyses (snd (get_data mock_library (IStr ''vertical_interval'')
       (Frame (one_cell ''x'')) PNone example_piece))) = Some (one_cell ''P8'')"
proof -
  note t = vertical_interval_takes_data_as_settings [where d = "one_cell ''x''"
      and L = mock_library and v = "one_cell ''P8''" and r = "one_cell ''8''" and p = example_piece
      and a = no_analyses and s = complete_false]
  have "''directed'' \<notin> set (columns (one_cell ''x'')) \<and>
      run_IntervalReindexer mock_library (one_cell ''P8'') (Frame (one_cell ''x'')) = Inr (one_cell ''8'')"
    by (simp add: one_cell_def mock_library_def)
  note a = t [THEN conjunct1, THEN mp, OF this]
  have "complete_settings (Val complete_false) = Inr True \<and> complete_false \<noteq> PNone"
    by (simp add: complete_complete_false) (simp add: complete_false_def)
  note a' = t [THEN conjunct2, THEN mp, OF this]
  have b: "fst (get_data mock_library (IStr ''vertical_interval'') (Frame (one_cell ''x'')) PNone example_piece) =
     Inr (Frame (one_cell ''8''))"
    by code_simp
  have c: "c_vertical_interval (ip_analyses (snd (get_data mock_library (IStr ''vertical_interval'')
       (Frame (one_cell ''x'')) PNone example_piece))) = Some (one_cell ''P8'')"
    by code_simp
  show ?thesis
    by (intro conjI a a' b c)
qed

subsection \<open>Repeated requests\<close>

text \<open>
  Claim C1, on the analysis \<open>active_voices\<close>. On a piece whose cache holds the table of
  notes and rests and the table of active voices, as the first request leaves it, a
  request with no data and no settings runs the \<open>ActiveVoicesIndexer\<close> again on the notes
  and rests and returns its result, not the cached table: the handler stores its result
  and has no branch that reads it back.
\<close>

theorem active_voices_is_recomputed:
  "run_ActiveVoicesIndexer L (Frame nr) (Val PNone) = Inr r \<longrightarrow>
   get_data L (IStr ''active_voices'') (Val PNone) PNone
     (p\<lparr>ip_analyses := a\<lparr>c_noterest := Some nr, c_active_voices := Some av\<rparr>\<rparr>) =
   (Inr (Frame r),
    p\<lparr>ip_analyses := a\<lparr>c_noterest := Some nr, c_active_voices := Some av\<rparr>,
      ip_probe := ip_probe p @ [''active_voices.ActiveVoicesIndexer'']\<rparr>)"
  by (simp add: active_voices_second_call)

theorem active_voices_is_recomputed_witness:
  "get_data mock_library (IStr ''active_voices'') (Val PNone) PNone
     (example_piece\<lparr>ip_analyses := no_analyses\<lparr>c_noterest := Some (one_cell ''C4''),
                        c_active_voices := Some (one_cell ''1'')\<rparr>\<rparr>) =
   (Inr (Frame (one_cell ''1'')),
    example_piece\<lparr>ip_analyses := no_analyses\<lparr>c_noterest := Some (one_cell ''C4''),
                        c_active_voices := Some (one_cell ''1'')\<rparr>,
      ip_probe := ip_probe example_piece @ [''active_voices.ActiveVoicesIndexer'']\<rparr>) \<and>
   ip_probe (snd (get_data mock_library (IStr ''active_voices'') (Val PNone) PNone example_piece)) =
     [''noterest.NoteRestIndexer'', ''active_voices.ActiveVoicesIndexer''] \<and>
   ip_probe (snd (get_data mock_library (IStr ''active_voices'') (Val PNone) PNone
      (snd (get_data mock_library (IStr ''active_voices'') (Val PNone) PNone example_piece)))) =
     [''noterest.NoteRestIndexer'', ''active_voices.ActiveVoicesIndexer'',
      ''active_voices.ActiveVoicesIndexer'']"
proof -
  have "run_ActiveVoicesIndexer mock_library (Frame (one_cell ''C4'')) (Val PNone) = Inr (one_cell ''1'')"
    by (simp add: mock_library_def one_cell_def)
  note a = active_voices_is_recomputed [THEN mp, OF this]
  show ?thesis
    by (intro conjI a probe_after_one_request probe_after_two_requests)
qed

subsection \<open>Horizontal intervals attached to the first note\<close>

text \<open>
  Claim C9, on settings with \<open>horiz_attach_later\<close> \<open>False\<close>. When the settings ask for
  directed, compound intervals with quality, the cached table is returned as it is, also
  when \<open>horiz_attach_later\<close> is \<open>False\<close>: the shift of the index is made in the branch
  that reindexes only.
\<close>

theorem horizontal_interval_not_shifted:
  "get_data L (IStr ''horizontal_interval'') (Val PNone) complete_false
     (p\<lparr>ip_analyses := a\<lparr>c_horizontal_interval := Some H\<rparr>\<rparr>) =
   (Inr (Frame H), p\<lparr>ip_analyses := a\<lparr>c_horizontal_interval := Some H\<rparr>\<rparr>)"
  by (rule horizontal_cached_bug)

theorem horizontal_interval_not_shifted_witness:
  "get_data mock_library (IStr ''horizontal_interval'') (Val PNone) complete_false
     (example_piece\<lparr>ip_analyses := no_analyses\<lparr>c_horizontal_interval :=
        Some \<lparr>columns = [''0''], level1 = None, rows = [(1, [Some (PStr ''M2'')]), (2, [Some (PStr ''-m3'')])]\<rparr>\<rparr>\<rparr>) =
   (Inr (Frame \<lparr>columns = [''0''], level1 = None, rows = [(1, [Some (PStr ''M2'')]), (2, [Some (PStr ''-m3'')])]\<rparr>),
    example_piece\<lparr>ip_analyses := no_analyses\<lparr>c_horizontal_interval :=
        Some \<lparr>columns = [''0''], level1 = None, rows = [(1, [Some (PStr ''M2'')]), (2, [Some (PStr ''-m3'')])]\<rparr>\<rparr>\<rparr>) \<and>
   attach_before \<lparr>columns = [''0''], level1 = None, rows = [(1, [Some (PStr ''M2'')]), (2, [Some (PStr ''-m3'')])]\<rparr> =
     Inr \<lparr>columns = [''0''], level1 = None, rows = [(0, [Some (PStr ''M2'')]), (1, [Some (PStr ''-m3'')])]\<rparr>"
  by (intro conjI horizontal_interval_not_shifted attach_before_example)

end
